theory Spec2Isabelle
  imports Main
begin

section \<open>Data model (app/models.py)\<close>

text \<open>
  The entities of \<^verbatim>\<open>app/models.py\<close>. Each table class extends its base class with the
  surrogate key and the creation timestamp, and the records follow that inheritance.
  A timestamp is an abstract integer: \<^verbatim>\<open>datetime.utcnow()\<close> is read from the clock, so
  every handler that inserts takes the current time \<open>now\<close> as an argument. Python's
  \<^verbatim>\<open>int\<close> is unbounded and is modelled by \<open>int\<close>; \<^verbatim>\<open>str\<close> by \<open>string\<close>, one
  \<open>char\<close> standing for one character. The song's year field, spelled with n-tilde in
  the source, is \<open>anio\<close> here. The key \<^verbatim>\<open>id\<close> is \<open>None\<close> only before the row is
  inserted; stored rows always carry it.
\<close>

type_synonym datetime = int

record UsuarioBase =
  nombre :: string
  correo :: string

record Usuario = UsuarioBase +
  usuario_id :: int
  fecha_registro :: datetime

type_synonym UsuarioCreate = UsuarioBase

record CancionBase =
  titulo :: string
  artista :: string
  album :: string
  duracion :: int
  anio :: int
  genero :: string

record Cancion = CancionBase +
  cancion_id :: int
  fecha_creacion :: datetime

type_synonym CancionCreate = CancionBase

record FavoritoBase =
  id_usuario :: int
  id_cancion :: int

record Favorito = FavoritoBase +
  favorito_id :: int
  fecha_marcado :: datetime

type_synonym FavoritoCreate = FavoritoBase

text \<open>
  The relational store: one list of rows per table, in insertion (rowid) order, which is
  the order an unordered \<^verbatim>\<open>SELECT\<close> returns them in.
\<close>

record database =
  usuarios :: "Usuario list"
  canciones :: "Cancion list"
  favoritos :: "Favorito list"

definition empty_db :: database where
  "empty_db = \<lparr>usuarios = [], canciones = [], favoritos = []\<rparr>"

text \<open>
  The errors a request can end in: the three \<^verbatim>\<open>HTTPException\<close>s of the handlers and of
  request validation, and the answer to an exception no handler catches.
\<close>

datatype http_error =
    NotFound              \<comment> \<open>404\<close>
  | Conflict              \<comment> \<open>400\<close>
  | ValidationError       \<comment> \<open>422\<close>
  | InternalServerError   \<comment> \<open>500: an uncaught \<^verbatim>\<open>IntegrityError\<close>\<close>

text \<open>
  The exceptions the session raises: a constraint violated at commit, and the driver's
  refusal to bind an integer parameter that does not fit the store's integer type.
\<close>

datatype store_error = IntegrityError | OverflowError

section \<open>The session (sqlmodel.Session over the schema of app/models.py)\<close>

text \<open>
  The store's integers are signed and 64 bits wide. A request's integer is a Python
  \<^verbatim>\<open>int\<close> of any size; the handlers and their parameter types put no bound on it.
\<close>

definition sqlite_int :: "int \<Rightarrow> bool" where
  "sqlite_int i = (- 9223372036854775808 \<le> i \<and> i \<le> 9223372036854775807)"

text \<open>
  \<^verbatim>\<open>session.get(Model, id)\<close>: the row with that primary key, or \<open>None\<close>. The key is bound
  as a parameter of the query, and for a key outside the store's integer range the driver
  raises \<^verbatim>\<open>OverflowError\<close>. A row's key is an integer of the store, so no row has a key
  outside that range: the keys that raise are exactly those outside it. The definition
  looks the key up first, so that it also says what a fetch by a row's own key returns
  without an assumption on the rows; \<open>session_get_usuario_representable\<close> below is the
  definition on a store whose keys are store integers.
\<close>

definition session_get_usuario :: "database \<Rightarrow> int \<Rightarrow> store_error + Usuario option" where
  "session_get_usuario db i =
     (case find (\<lambda>u. usuario_id u = i) (usuarios db) of
        Some usuario \<Rightarrow> Inr (Some usuario)
      | None \<Rightarrow> if sqlite_int i then Inr None else Inl OverflowError)"

definition session_get_cancion :: "database \<Rightarrow> int \<Rightarrow> store_error + Cancion option" where
  "session_get_cancion db i =
     (case find (\<lambda>c. cancion_id c = i) (canciones db) of
        Some cancion \<Rightarrow> Inr (Some cancion)
      | None \<Rightarrow> if sqlite_int i then Inr None else Inl OverflowError)"

definition session_get_favorito :: "database \<Rightarrow> int \<Rightarrow> store_error + Favorito option" where
  "session_get_favorito db i =
     (case find (\<lambda>f. favorito_id f = i) (favoritos db) of
        Some favorito \<Rightarrow> Inr (Some favorito)
      | None \<Rightarrow> if sqlite_int i then Inr None else Inl OverflowError)"

text \<open>
  An \<^verbatim>\<open>INTEGER PRIMARY KEY\<close> left \<open>None\<close> is assigned by the store on insert: one more
  than the largest key in the table, \<open>1\<close> in an empty table.
\<close>

definition next_id :: "int list \<Rightarrow> int" where
  "next_id ids = fold max ids 0 + 1"

text \<open>
  \<^verbatim>\<open>select(Favorito).where(and_(id_usuario == a, id_cancion == b))\<close> followed by
  \<^verbatim>\<open>.first()\<close>. Both integers are bound as parameters, as the key of a
  \<^verbatim>\<open>session.get\<close> is.
\<close>

definition select_favorito_par ::
  "database \<Rightarrow> int \<Rightarrow> int \<Rightarrow> store_error + Favorito option" where
  "select_favorito_par db a b =
     (case find (\<lambda>f. id_usuario f = a \<and> id_cancion f = b) (favoritos db) of
        Some favorito \<Rightarrow> Inr (Some favorito)
      | None \<Rightarrow> if sqlite_int a \<and> sqlite_int b then Inr None else Inl OverflowError)"

text \<open>
  \<^verbatim>\<open>Favorito.model_validate(data)\<close>, \<^verbatim>\<open>session.add\<close>, \<^verbatim>\<open>session.commit\<close>,
  \<^verbatim>\<open>session.refresh\<close>. The table \<^verbatim>\<open>favorito\<close> declares a primary key and two foreign
  keys and nothing else (the class has no \<^verbatim>\<open>__table_args__\<close> and no field is
  \<^verbatim>\<open>unique\<close>), so the store accepts any row whose key is fresh.
\<close>

definition Favorito_model_validate :: "datetime \<Rightarrow> int \<Rightarrow> FavoritoCreate \<Rightarrow> Favorito" where
  "Favorito_model_validate now i data =
     \<lparr>id_usuario = id_usuario data, id_cancion = id_cancion data,
      favorito_id = i, fecha_marcado = now\<rparr>"

definition commit_add_favorito ::
  "database \<Rightarrow> datetime \<Rightarrow> FavoritoCreate \<Rightarrow> store_error + (database \<times> Favorito)" where
  "commit_add_favorito db now data =
     (let row = Favorito_model_validate now (next_id (map favorito_id (favoritos db))) data
      in Inr (db\<lparr>favoritos := favoritos db @ [row]\<rparr>, row))"

section \<open>Favorito handlers (app/routers/favoritos.py)\<close>

text \<open>
  A handler takes the database and returns the database after the request together with
  the response: an error or the value returned. An exception the handler does not catch
  ends the request with an internal server error and leaves the store as it was.
\<close>

definition crear_favorito ::
  "database \<Rightarrow> datetime \<Rightarrow> FavoritoCreate \<Rightarrow> database \<times> (http_error + Favorito)" where
  "crear_favorito db now favorito =
     (case session_get_usuario db (id_usuario favorito) of
        Inl e \<Rightarrow> (db, Inl InternalServerError)
      | Inr None \<Rightarrow> (db, Inl NotFound)
      | Inr (Some usuario) \<Rightarrow>
          (case session_get_cancion db (id_cancion favorito) of
             Inl e \<Rightarrow> (db, Inl InternalServerError)
           | Inr None \<Rightarrow> (db, Inl NotFound)
           | Inr (Some cancion) \<Rightarrow>
               (case select_favorito_par db (id_usuario favorito) (id_cancion favorito) of
                  Inl e \<Rightarrow> (db, Inl InternalServerError)
                | Inr (Some favorito_existente) \<Rightarrow> (db, Inl Conflict)
                | Inr None \<Rightarrow>
                    (case commit_add_favorito db now favorito of
                       Inl e \<Rightarrow> (db, Inl InternalServerError)
                     | Inr (db', db_favorito) \<Rightarrow> (db', Inr db_favorito)))))"

definition marcar_favorito_especifico ::
  "database \<Rightarrow> datetime \<Rightarrow> int \<Rightarrow> int \<Rightarrow> database \<times> (http_error + Favorito)" where
  "marcar_favorito_especifico db now a b =
     (case session_get_usuario db a of
        Inl e \<Rightarrow> (db, Inl InternalServerError)
      | Inr None \<Rightarrow> (db, Inl NotFound)
      | Inr (Some usuario) \<Rightarrow>
          (case session_get_cancion db b of
             Inl e \<Rightarrow> (db, Inl InternalServerError)
           | Inr None \<Rightarrow> (db, Inl NotFound)
           | Inr (Some cancion) \<Rightarrow>
               (case select_favorito_par db a b of
                  Inl e \<Rightarrow> (db, Inl InternalServerError)
                | Inr (Some favorito_existente) \<Rightarrow> (db, Inl Conflict)
                | Inr None \<Rightarrow>
                    (let favorito_data = \<lparr>id_usuario = a, id_cancion = b\<rparr>
                     in case commit_add_favorito db now favorito_data of
                          Inl e \<Rightarrow> (db, Inl InternalServerError)
                        | Inr (db', db_favorito) \<Rightarrow> (db', Inr db_favorito)))))"

definition obtener_favorito :: "database \<Rightarrow> int \<Rightarrow> http_error + Favorito" where
  "obtener_favorito db favorito_id' =
     (case session_get_favorito db favorito_id' of
        Inl e \<Rightarrow> Inl InternalServerError
      | Inr None \<Rightarrow> Inl NotFound
      | Inr (Some favorito) \<Rightarrow> Inr favorito)"

definition eliminar_favorito :: "database \<Rightarrow> int \<Rightarrow> database \<times> (http_error + unit)" where
  "eliminar_favorito db favorito_id' =
     (case session_get_favorito db favorito_id' of
        Inl e \<Rightarrow> (db, Inl InternalServerError)
      | Inr None \<Rightarrow> (db, Inl NotFound)
      | Inr (Some favorito) \<Rightarrow>
          (db\<lparr>favoritos := filter (\<lambda>f. favorito_id f \<noteq> favorito_id favorito) (favoritos db)\<rparr>,
           Inr ()))"

definition eliminar_favorito_especifico ::
  "database \<Rightarrow> int \<Rightarrow> int \<Rightarrow> database \<times> (http_error + unit)" where
  "eliminar_favorito_especifico db a b =
     (case select_favorito_par db a b of
        Inl e \<Rightarrow> (db, Inl InternalServerError)
      | Inr None \<Rightarrow> (db, Inl NotFound)
      | Inr (Some favorito) \<Rightarrow>
          (db\<lparr>favoritos := filter (\<lambda>f. favorito_id f \<noteq> favorito_id favorito) (favoritos db)\<rparr>,
           Inr ()))"

section \<open>Usuario handlers (app/routers/usuarios.py)\<close>

text \<open>
  \<^verbatim>\<open>correo\<close> is declared \<^verbatim>\<open>Field(unique=True)\<close>: the table \<^verbatim>\<open>usuario\<close> has a unique index
  on that column, and the store raises \<^verbatim>\<open>IntegrityError\<close> on an insert or update that
  would repeat a value. Every column of the three tables is \<^verbatim>\<open>NOT NULL\<close> (no field of
  a table class is optional but the key).
\<close>

definition Usuario_model_validate :: "datetime \<Rightarrow> int \<Rightarrow> UsuarioCreate \<Rightarrow> Usuario" where
  "Usuario_model_validate now i data =
     \<lparr>nombre = nombre data, correo = correo data, usuario_id = i, fecha_registro = now\<rparr>"

definition commit_add_usuario ::
  "database \<Rightarrow> datetime \<Rightarrow> UsuarioCreate \<Rightarrow> store_error + (database \<times> Usuario)" where
  "commit_add_usuario db now data =
     (if \<exists>u \<in> set (usuarios db). correo u = correo data then Inl IntegrityError
      else
        (let row = Usuario_model_validate now (next_id (map usuario_id (usuarios db))) data
         in Inr (db\<lparr>usuarios := usuarios db @ [row]\<rparr>, row)))"

text \<open>
  On \<^verbatim>\<open>IntegrityError\<close> the handler rolls the transaction back, which leaves the store as
  it was when the request began, and answers 400. Its \<^verbatim>\<open>except\<close> clause names that
  exception only.
\<close>

definition crear_usuario ::
  "database \<Rightarrow> datetime \<Rightarrow> UsuarioCreate \<Rightarrow> database \<times> (http_error + Usuario)" where
  "crear_usuario db now usuario =
     (case commit_add_usuario db now usuario of
        Inl IntegrityError \<Rightarrow> (db, Inl Conflict)
      | Inl OverflowError \<Rightarrow> (db, Inl InternalServerError)
      | Inr (db', db_usuario) \<Rightarrow> (db', Inr db_usuario))"

definition obtener_usuario :: "database \<Rightarrow> int \<Rightarrow> http_error + Usuario" where
  "obtener_usuario db usuario_id' =
     (case session_get_usuario db usuario_id' of
        Inl e \<Rightarrow> Inl InternalServerError
      | Inr None \<Rightarrow> Inl NotFound
      | Inr (Some usuario) \<Rightarrow> Inr usuario)"

text \<open>
  A field of an update model is in one of three states: not in the request body
  (\<open>Unset\<close>), or supplied with \<^verbatim>\<open>null\<close> or with a value. \<^verbatim>\<open>model_dump(exclude_unset=True)\<close>
  keeps exactly the supplied fields, and the loop assigns each of them to the row object,
  \<^verbatim>\<open>None\<close> included.
\<close>

datatype 'a field = Unset | Supplied "'a option"

record UsuarioUpdate =
  upd_nombre :: "string field"
  upd_correo :: "string field"

definition setattr_field :: "'a field \<Rightarrow> 'a \<Rightarrow> 'a option" where
  "setattr_field f old = (case f of Unset \<Rightarrow> Some old | Supplied v \<Rightarrow> v)"

text \<open>
  The commit of a modified \<^verbatim>\<open>Usuario\<close>, given the attribute values of the object after
  the assignments: \<^verbatim>\<open>None\<close> in a \<^verbatim>\<open>NOT NULL\<close> column and a \<^verbatim>\<open>correo\<close> another row
  holds both raise \<^verbatim>\<open>IntegrityError\<close>.
\<close>

definition commit_update_usuario ::
  "database \<Rightarrow> Usuario \<Rightarrow> string option \<Rightarrow> string option \<Rightarrow>
     store_error + (database \<times> Usuario)" where
  "commit_update_usuario db usuario nombre' correo' =
     (case nombre' of
        None \<Rightarrow> Inl IntegrityError
      | Some n \<Rightarrow>
          (case correo' of
             None \<Rightarrow> Inl IntegrityError
           | Some c \<Rightarrow>
               if \<exists>u \<in> set (usuarios db). usuario_id u \<noteq> usuario_id usuario \<and> correo u = c
               then Inl IntegrityError
               else
                 (let row = usuario\<lparr>nombre := n, correo := c\<rparr>
                  in Inr (db\<lparr>usuarios :=
                              map (\<lambda>u. if usuario_id u = usuario_id usuario then row else u)
                                (usuarios db)\<rparr>,
                          row))))"

definition actualizar_usuario ::
  "database \<Rightarrow> int \<Rightarrow> UsuarioUpdate \<Rightarrow> database \<times> (http_error + Usuario)" where
  "actualizar_usuario db usuario_id' usuario_update =
     (case session_get_usuario db usuario_id' of
        Inl e \<Rightarrow> (db, Inl InternalServerError)
      | Inr None \<Rightarrow> (db, Inl NotFound)
      | Inr (Some usuario) \<Rightarrow>
          (case commit_update_usuario db usuario
                  (setattr_field (upd_nombre usuario_update) (nombre usuario))
                  (setattr_field (upd_correo usuario_update) (correo usuario)) of
             Inl IntegrityError \<Rightarrow> (db, Inl Conflict)
           | Inl OverflowError \<Rightarrow> (db, Inl InternalServerError)
           | Inr (db', usuario') \<Rightarrow> (db', Inr usuario')))"

text \<open>
  \<^verbatim>\<open>session.delete(usuario)\<close> and \<^verbatim>\<open>session.commit()\<close>. The relationship
  \<^verbatim>\<open>Usuario.favoritos\<close> is declared with \<^verbatim>\<open>back_populates\<close> only: no delete cascade on
  the relationship and no \<^verbatim>\<open>ON DELETE\<close> on the foreign key. No statement of the handler
  deletes a \<^verbatim>\<open>Favorito\<close>. For such a relationship the unit of work detaches the children
  of a deleted parent by setting their foreign key to \<^verbatim>\<open>NULL\<close>, which the \<^verbatim>\<open>NOT NULL\<close>
  column \<^verbatim>\<open>favorito.id_usuario\<close> refuses: the commit raises \<^verbatim>\<open>IntegrityError\<close> and
  nothing is written. A parent with no children is deleted.
\<close>

definition commit_delete_usuario :: "database \<Rightarrow> Usuario \<Rightarrow> store_error + database" where
  "commit_delete_usuario db usuario =
     (if \<exists>f \<in> set (favoritos db). id_usuario f = usuario_id usuario then Inl IntegrityError
      else Inr (db\<lparr>usuarios :=
                     filter (\<lambda>u. usuario_id u \<noteq> usuario_id usuario) (usuarios db)\<rparr>))"

definition eliminar_usuario :: "database \<Rightarrow> int \<Rightarrow> database \<times> (http_error + unit)" where
  "eliminar_usuario db usuario_id' =
     (case session_get_usuario db usuario_id' of
        Inl e \<Rightarrow> (db, Inl InternalServerError)
      | Inr None \<Rightarrow> (db, Inl NotFound)
      | Inr (Some usuario) \<Rightarrow>
          (case commit_delete_usuario db usuario of
             Inl e \<Rightarrow> (db, Inl InternalServerError)
           | Inr db' \<Rightarrow> (db', Inr ())))"

section \<open>Cancion handlers (app/routers/canciones.py)\<close>

definition Cancion_model_validate :: "datetime \<Rightarrow> int \<Rightarrow> CancionCreate \<Rightarrow> Cancion" where
  "Cancion_model_validate now i data =
     \<lparr>titulo = titulo data, artista = artista data, album = album data,
      duracion = duracion data, anio = anio data, genero = genero data,
      cancion_id = i, fecha_creacion = now\<rparr>"

definition commit_add_cancion ::
  "database \<Rightarrow> datetime \<Rightarrow> CancionCreate \<Rightarrow> store_error + (database \<times> Cancion)" where
  "commit_add_cancion db now data =
     (let row = Cancion_model_validate now (next_id (map cancion_id (canciones db))) data
      in Inr (db\<lparr>canciones := canciones db @ [row]\<rparr>, row))"

definition crear_cancion ::
  "database \<Rightarrow> datetime \<Rightarrow> CancionCreate \<Rightarrow> database \<times> (http_error + Cancion)" where
  "crear_cancion db now cancion =
     (case commit_add_cancion db now cancion of
        Inl e \<Rightarrow> (db, Inl InternalServerError)
      | Inr (db', db_cancion) \<Rightarrow> (db', Inr db_cancion))"

definition obtener_cancion :: "database \<Rightarrow> int \<Rightarrow> http_error + Cancion" where
  "obtener_cancion db cancion_id' =
     (case session_get_cancion db cancion_id' of
        Inl e \<Rightarrow> Inl InternalServerError
      | Inr None \<Rightarrow> Inl NotFound
      | Inr (Some cancion) \<Rightarrow> Inr cancion)"

record CancionUpdate =
  upd_titulo :: "string field"
  upd_artista :: "string field"
  upd_album :: "string field"
  upd_duracion :: "int field"
  upd_anio :: "int field"
  upd_genero :: "string field"

text \<open>
  The attribute values of the \<^verbatim>\<open>Cancion\<close> object after the assignments, and its commit:
  \<^verbatim>\<open>None\<close> in any column raises \<^verbatim>\<open>IntegrityError\<close>, which this handler does not catch.
\<close>

definition setattr_cancion :: "Cancion \<Rightarrow> CancionUpdate \<Rightarrow> Cancion option" where
  "setattr_cancion cancion u =
     (case setattr_field (upd_titulo u) (titulo cancion) of None \<Rightarrow> None | Some t \<Rightarrow>
      case setattr_field (upd_artista u) (artista cancion) of None \<Rightarrow> None | Some ar \<Rightarrow>
      case setattr_field (upd_album u) (album cancion) of None \<Rightarrow> None | Some al \<Rightarrow>
      case setattr_field (upd_duracion u) (duracion cancion) of None \<Rightarrow> None | Some d \<Rightarrow>
      case setattr_field (upd_anio u) (anio cancion) of None \<Rightarrow> None | Some a \<Rightarrow>
      case setattr_field (upd_genero u) (genero cancion) of None \<Rightarrow> None | Some g \<Rightarrow>
        Some (cancion\<lparr>titulo := t, artista := ar, album := al, duracion := d,
                       anio := a, genero := g\<rparr>))"

definition commit_update_cancion ::
  "database \<Rightarrow> Cancion \<Rightarrow> Cancion option \<Rightarrow> store_error + (database \<times> Cancion)" where
  "commit_update_cancion db cancion attrs =
     (case attrs of
        None \<Rightarrow> Inl IntegrityError
      | Some row \<Rightarrow>
          Inr (db\<lparr>canciones :=
                     map (\<lambda>c. if cancion_id c = cancion_id cancion then row else c)
                       (canciones db)\<rparr>,
               row))"

definition actualizar_cancion ::
  "database \<Rightarrow> int \<Rightarrow> CancionUpdate \<Rightarrow> database \<times> (http_error + Cancion)" where
  "actualizar_cancion db cancion_id' cancion_update =
     (case session_get_cancion db cancion_id' of
        Inl e \<Rightarrow> (db, Inl InternalServerError)
      | Inr None \<Rightarrow> (db, Inl NotFound)
      | Inr (Some cancion) \<Rightarrow>
          (case commit_update_cancion db cancion (setattr_cancion cancion cancion_update) of
             Inl e \<Rightarrow> (db, Inl InternalServerError)
           | Inr (db', cancion') \<Rightarrow> (db', Inr cancion')))"

text \<open>
  Deleting a \<^verbatim>\<open>Cancion\<close>: \<^verbatim>\<open>Cancion.favoritos\<close> is declared like \<^verbatim>\<open>Usuario.favoritos\<close>, so
  the commit behaves as \<open>commit_delete_usuario\<close> does.
\<close>

definition commit_delete_cancion :: "database \<Rightarrow> Cancion \<Rightarrow> store_error + database" where
  "commit_delete_cancion db cancion =
     (if \<exists>f \<in> set (favoritos db). id_cancion f = cancion_id cancion then Inl IntegrityError
      else Inr (db\<lparr>canciones :=
                     filter (\<lambda>c. cancion_id c \<noteq> cancion_id cancion) (canciones db)\<rparr>))"

definition eliminar_cancion :: "database \<Rightarrow> int \<Rightarrow> database \<times> (http_error + unit)" where
  "eliminar_cancion db cancion_id' =
     (case session_get_cancion db cancion_id' of
        Inl e \<Rightarrow> (db, Inl InternalServerError)
      | Inr None \<Rightarrow> (db, Inl NotFound)
      | Inr (Some cancion) \<Rightarrow>
          (case commit_delete_cancion db cancion of
             Inl e \<Rightarrow> (db, Inl InternalServerError)
           | Inr db' \<Rightarrow> (db', Inr ())))"

section \<open>Listing and search\<close>

text \<open>
  A \<^verbatim>\<open>select\<close> statement: the table's rows that satisfy the \<^verbatim>\<open>WHERE\<close> clause, then
  \<^verbatim>\<open>OFFSET\<close> and \<^verbatim>\<open>LIMIT\<close>. The configured store is SQLite, where a negative
  \<^verbatim>\<open>OFFSET\<close> counts as zero and a negative \<^verbatim>\<open>LIMIT\<close> as no limit.
\<close>

record 'a select_stmt =
  where_clause :: "'a \<Rightarrow> bool"
  offset_clause :: int
  limit_clause :: int

definition session_exec :: "'a select_stmt \<Rightarrow> 'a list \<Rightarrow> 'a list" where
  "session_exec q rows =
     (let rest = drop (nat (offset_clause q)) (filter (where_clause q) rows)
      in if limit_clause q < 0 then rest else take (nat (limit_clause q)) rest)"

text \<open>
  A query parameter with a default in the handler's signature: absent from the request,
  it takes the default.
\<close>

definition param :: "'a \<Rightarrow> 'a option \<Rightarrow> 'a" where
  "param dflt p = (case p of None \<Rightarrow> dflt | Some v \<Rightarrow> v)"

definition listar_usuarios_stmt :: "int option \<Rightarrow> int option \<Rightarrow> Usuario select_stmt" where
  "listar_usuarios_stmt skip' limit' =
     (let skip = param 0 skip'; limit = param 100 limit';
          limit = (if limit > 100 then 100 else limit)
      in \<lparr>where_clause = (\<lambda>_. True), offset_clause = skip, limit_clause = limit\<rparr>)"

definition listar_usuarios :: "database \<Rightarrow> int option \<Rightarrow> int option \<Rightarrow> Usuario list" where
  "listar_usuarios db skip' limit' = session_exec (listar_usuarios_stmt skip' limit') (usuarios db)"

definition listar_canciones_stmt :: "int option \<Rightarrow> int option \<Rightarrow> Cancion select_stmt" where
  "listar_canciones_stmt skip' limit' =
     (let skip = param 0 skip'; limit = param 100 limit';
          limit = (if limit > 100 then 100 else limit)
      in \<lparr>where_clause = (\<lambda>_. True), offset_clause = skip, limit_clause = limit\<rparr>)"

definition listar_canciones :: "database \<Rightarrow> int option \<Rightarrow> int option \<Rightarrow> Cancion list" where
  "listar_canciones db skip' limit' =
     session_exec (listar_canciones_stmt skip' limit') (canciones db)"

definition listar_favoritos_stmt :: "int option \<Rightarrow> int option \<Rightarrow> Favorito select_stmt" where
  "listar_favoritos_stmt skip' limit' =
     (let skip = param 0 skip'; limit = param 100 limit';
          limit = (if limit > 100 then 100 else limit)
      in \<lparr>where_clause = (\<lambda>_. True), offset_clause = skip, limit_clause = limit\<rparr>)"

definition listar_favoritos :: "database \<Rightarrow> int option \<Rightarrow> int option \<Rightarrow> Favorito list" where
  "listar_favoritos db skip' limit' =
     session_exec (listar_favoritos_stmt skip' limit') (favoritos db)"

text \<open>
  \<^verbatim>\<open>column.ilike(pattern)\<close>: SQL \<^verbatim>\<open>LIKE\<close> on the lower-cased operands. In the pattern
  \<^verbatim>\<open>%\<close> stands for any run of characters and \<^verbatim>\<open>_\<close> for any one character; the handler
  gives no escape character. SQLite folds the case of ASCII letters only.
\<close>

definition lower_char :: "char \<Rightarrow> char" where
  "lower_char c =
     (case map_of (zip ''ABCDEFGHIJKLMNOPQRSTUVWXYZ'' ''abcdefghijklmnopqrstuvwxyz'') c of
        None \<Rightarrow> c
      | Some l \<Rightarrow> l)"

fun like :: "string \<Rightarrow> string \<Rightarrow> bool" where
  "like [] [] = True"
| "like [] (c # s) = False"
| "like (p # ps) [] = (p = CHR ''%'' \<and> like ps [])"
| "like (p # ps) (c # s) =
     (if p = CHR ''%'' then like ps (c # s) \<or> like (p # ps) s
      else (p = CHR ''_'' \<or> p = c) \<and> like ps s)"

definition ilike :: "string \<Rightarrow> string \<Rightarrow> bool" where
  "ilike s pattern = like (map lower_char pattern) (map lower_char s)"

text \<open>
  The filters are added under Python truth tests (\<^verbatim>\<open>if titulo:\<close>, \<^verbatim>\<open>if anio:\<close>), for
  which \<^verbatim>\<open>None\<close>, the empty string and the integer zero are all false.
\<close>

definition buscar_canciones_conditions ::
  "string option \<Rightarrow> string option \<Rightarrow> string option \<Rightarrow> int option \<Rightarrow> (Cancion \<Rightarrow> bool) list" where
  "buscar_canciones_conditions titulo' artista' genero' anio' =
     (case titulo' of
        None \<Rightarrow> []
      | Some t \<Rightarrow> if t = [] then [] else [\<lambda>c. ilike (titulo c) (''%'' @ t @ ''%'')]) @
     (case artista' of
        None \<Rightarrow> []
      | Some a \<Rightarrow> if a = [] then [] else [\<lambda>c. ilike (artista c) (''%'' @ a @ ''%'')]) @
     (case genero' of
        None \<Rightarrow> []
      | Some g \<Rightarrow> if g = [] then [] else [\<lambda>c. ilike (genero c) (''%'' @ g @ ''%'')]) @
     (case anio' of
        None \<Rightarrow> []
      | Some y \<Rightarrow> if y = 0 then [] else [\<lambda>c. anio c = y])"

definition buscar_canciones_stmt ::
  "string option \<Rightarrow> string option \<Rightarrow> string option \<Rightarrow> int option \<Rightarrow>
     int option \<Rightarrow> int option \<Rightarrow> Cancion select_stmt" where
  "buscar_canciones_stmt titulo' artista' genero' anio' skip' limit' =
     (let skip = param 0 skip'; limit = param 100 limit';
          limit = (if limit > 100 then 100 else limit);
          conditions = buscar_canciones_conditions titulo' artista' genero' anio'
      in \<lparr>where_clause =
             (case conditions of [] \<Rightarrow> (\<lambda>_. True) | _ # _ \<Rightarrow> (\<lambda>c. list_all (\<lambda>p. p c) conditions)),
           offset_clause = skip, limit_clause = limit\<rparr>)"

definition buscar_canciones ::
  "database \<Rightarrow> string option \<Rightarrow> string option \<Rightarrow> string option \<Rightarrow> int option \<Rightarrow>
     int option \<Rightarrow> int option \<Rightarrow> Cancion list" where
  "buscar_canciones db titulo' artista' genero' anio' skip' limit' =
     session_exec (buscar_canciones_stmt titulo' artista' genero' anio' skip' limit')
       (canciones db)"

section \<open>Request validation (the field constraints and validators of app/models.py)\<close>

text \<open>
  The current calendar year, \<^verbatim>\<open>datetime.now().year\<close>, is read from the clock and is the
  argument \<open>anio_actual\<close>. A field's declared bounds are checked first and the
  \<^verbatim>\<open>field_validator\<close> of the class runs on a value that passed them.
\<close>

definition CancionBase_validar_anio_no_futuro :: "int \<Rightarrow> int \<Rightarrow> http_error + int" where
  "CancionBase_validar_anio_no_futuro anio_actual v =
     (if v > anio_actual then Inl ValidationError else Inr v)"

definition CancionBase_anio :: "int \<Rightarrow> int \<Rightarrow> http_error + int" where
  "CancionBase_anio anio_actual v =
     (if \<not> (v \<ge> 1900 \<and> v \<le> 2100) then Inl ValidationError
      else CancionBase_validar_anio_no_futuro anio_actual v)"

definition CancionUpdate_validar_anio_no_futuro ::
  "int \<Rightarrow> int option \<Rightarrow> http_error + int option" where
  "CancionUpdate_validar_anio_no_futuro anio_actual v =
     (case v of
        None \<Rightarrow> Inr v
      | Some y \<Rightarrow> if y > anio_actual then Inl ValidationError else Inr v)"

definition CancionUpdate_anio :: "int \<Rightarrow> int field \<Rightarrow> http_error + int field" where
  "CancionUpdate_anio anio_actual f =
     (case f of
        Unset \<Rightarrow> Inr Unset
      | Supplied None \<Rightarrow> map_sum id Supplied (CancionUpdate_validar_anio_no_futuro anio_actual None)
      | Supplied (Some y) \<Rightarrow>
          if \<not> (y \<ge> 1900 \<and> y \<le> 2100) then Inl ValidationError
          else map_sum id Supplied (CancionUpdate_validar_anio_no_futuro anio_actual (Some y)))"

definition str_ok :: "nat \<Rightarrow> nat \<Rightarrow> string \<Rightarrow> bool" where
  "str_ok min_length max_length s = (min_length \<le> length s \<and> length s \<le> max_length)"

definition str_field_ok :: "nat \<Rightarrow> nat \<Rightarrow> string field \<Rightarrow> bool" where
  "str_field_ok min_length max_length f =
     (case f of Supplied (Some s) \<Rightarrow> str_ok min_length max_length s | _ \<Rightarrow> True)"

definition duracion_ok :: "int \<Rightarrow> bool" where
  "duracion_ok d = (d > 0 \<and> d < 3600)"

definition duracion_field_ok :: "int field \<Rightarrow> bool" where
  "duracion_field_ok f = (case f of Supplied (Some d) \<Rightarrow> duracion_ok d | _ \<Rightarrow> True)"

definition CancionCreate_validate :: "int \<Rightarrow> CancionCreate \<Rightarrow> http_error + CancionCreate" where
  "CancionCreate_validate anio_actual data =
     (if str_ok 1 200 (titulo data) \<and> str_ok 1 100 (artista data) \<and> str_ok 1 200 (album data)
         \<and> duracion_ok (duracion data) \<and> str_ok 1 50 (genero data)
      then (case CancionBase_anio anio_actual (anio data) of
              Inl e \<Rightarrow> Inl e
            | Inr v \<Rightarrow> Inr (data\<lparr>anio := v\<rparr>))
      else Inl ValidationError)"

definition CancionUpdate_validate :: "int \<Rightarrow> CancionUpdate \<Rightarrow> http_error + CancionUpdate" where
  "CancionUpdate_validate anio_actual data =
     (if str_field_ok 1 200 (upd_titulo data) \<and> str_field_ok 1 100 (upd_artista data)
         \<and> str_field_ok 1 200 (upd_album data) \<and> duracion_field_ok (upd_duracion data)
         \<and> str_field_ok 1 50 (upd_genero data)
      then (case CancionUpdate_anio anio_actual (upd_anio data) of
              Inl e \<Rightarrow> Inl e
            | Inr f \<Rightarrow> Inr (data\<lparr>upd_anio := f\<rparr>))
      else Inl ValidationError)"

text \<open>
  The two routes that take a song in the body: the framework validates the body against
  the handler's parameter type and calls the handler only with a valid one.
\<close>

definition POST_canciones ::
  "int \<Rightarrow> database \<Rightarrow> datetime \<Rightarrow> CancionCreate \<Rightarrow> database \<times> (http_error + Cancion)" where
  "POST_canciones anio_actual db now body =
     (case CancionCreate_validate anio_actual body of
        Inl e \<Rightarrow> (db, Inl e)
      | Inr cancion \<Rightarrow> crear_cancion db now cancion)"

definition PUT_canciones ::
  "int \<Rightarrow> database \<Rightarrow> int \<Rightarrow> CancionUpdate \<Rightarrow> database \<times> (http_error + Cancion)" where
  "PUT_canciones anio_actual db cancion_id' body =
     (case CancionUpdate_validate anio_actual body of
        Inl e \<Rightarrow> (db, Inl e)
      | Inr cancion_update \<Rightarrow> actualizar_cancion db cancion_id' cancion_update)"

section \<open>The application: routes that change the store (main.py)\<close>

datatype request =
    Post_usuario datetime UsuarioCreate
  | Put_usuario int UsuarioUpdate
  | Delete_usuario int
  | Post_cancion datetime CancionCreate
  | Put_cancion int CancionUpdate
  | Delete_cancion int
  | Post_favorito datetime FavoritoCreate
  | Post_favorito_especifico datetime int int
  | Delete_favorito int
  | Delete_favorito_especifico int int

fun serve :: "database \<Rightarrow> request \<Rightarrow> database" where
  "serve db (Post_usuario now u) = fst (crear_usuario db now u)"
| "serve db (Put_usuario i u) = fst (actualizar_usuario db i u)"
| "serve db (Delete_usuario i) = fst (eliminar_usuario db i)"
| "serve db (Post_cancion now c) = fst (crear_cancion db now c)"
| "serve db (Put_cancion i c) = fst (actualizar_cancion db i c)"
| "serve db (Delete_cancion i) = fst (eliminar_cancion db i)"
| "serve db (Post_favorito now f) = fst (crear_favorito db now f)"
| "serve db (Post_favorito_especifico now a b) = fst (marcar_favorito_especifico db now a b)"
| "serve db (Delete_favorito i) = fst (eliminar_favorito db i)"
| "serve db (Delete_favorito_especifico a b) = fst (eliminar_favorito_especifico db a b)"

text \<open>
  The states the application reaches from the empty schema created at startup, one
  request after another.
\<close>

inductive reachable :: "database \<Rightarrow> bool" where
  reachable_init: "reachable empty_db"
| reachable_step: "reachable db \<Longrightarrow> reachable (serve db req)"

text \<open>
  The pair a favorite stands for, and the three uniqueness properties of a store: user
  keys, user emails and favorite pairs.
\<close>

definition par_favorito :: "Favorito \<Rightarrow> int \<times> int" where
  "par_favorito f = (id_usuario f, id_cancion f)"

definition sin_duplicados :: "database \<Rightarrow> bool" where
  "sin_duplicados db =
     (distinct (map usuario_id (usuarios db)) \<and> distinct (map correo (usuarios db))
      \<and> distinct (map par_favorito (favoritos db)))"

section \<open>The search as the specification words it\<close>

text \<open>
  The specification's search, for comparison with \<open>buscar_canciones\<close>: every supplied
  parameter is a predicate, a text parameter matching when it occurs in the column
  without regard to case and the year matching by equality; an absent parameter imposes
  nothing; the rows that satisfy all of them are paginated as the list is.
\<close>

fun es_prefijo :: "string \<Rightarrow> string \<Rightarrow> bool" where
  "es_prefijo [] s = True"
| "es_prefijo (x # xs) [] = False"
| "es_prefijo (x # xs) (c # s) = (x = c \<and> es_prefijo xs s)"

fun contiene :: "string \<Rightarrow> string \<Rightarrow> bool" where
  "contiene [] t = (t = [])"
| "contiene (c # s) t = (es_prefijo t (c # s) \<or> contiene s t)"

definition contiene_sin_caso :: "string \<Rightarrow> string \<Rightarrow> bool" where
  "contiene_sin_caso s t = contiene (map lower_char s) (map lower_char t)"

definition spec_predicado ::
  "string option \<Rightarrow> string option \<Rightarrow> string option \<Rightarrow> int option \<Rightarrow> Cancion \<Rightarrow> bool" where
  "spec_predicado titulo' artista' genero' anio' c =
     ((case titulo' of None \<Rightarrow> True | Some t \<Rightarrow> contiene_sin_caso (titulo c) t)
      \<and> (case artista' of None \<Rightarrow> True | Some a \<Rightarrow> contiene_sin_caso (artista c) a)
      \<and> (case genero' of None \<Rightarrow> True | Some g \<Rightarrow> contiene_sin_caso (genero c) g)
      \<and> (case anio' of None \<Rightarrow> True | Some y \<Rightarrow> anio c = y))"

definition spec_buscar_canciones ::
  "database \<Rightarrow> string option \<Rightarrow> string option \<Rightarrow> string option \<Rightarrow> int option \<Rightarrow>
     int option \<Rightarrow> int option \<Rightarrow> Cancion list" where
  "spec_buscar_canciones db titulo' artista' genero' anio' skip' limit' =
     session_exec
       \<lparr>where_clause = spec_predicado titulo' artista' genero' anio',
        offset_clause = param 0 skip',
        limit_clause = (if param 100 limit' > 100 then 100 else param 100 limit')\<rparr>
       (canciones db)"

text \<open>
  A search text free of the two \<^verbatim>\<open>LIKE\<close> wildcards.
\<close>

definition sin_comodines :: "string option \<Rightarrow> bool" where
  "sin_comodines p = (case p of None \<Rightarrow> True | Some t \<Rightarrow> CHR ''%'' \<notin> set t \<and> CHR ''_'' \<notin> set t)"

section \<open>Example states\<close>

text \<open>
  The scenario of the specification: user Ana, a second user, one song, and the state
  after Ana has marked the song.
\<close>

definition usuario_ana :: Usuario where
  "usuario_ana = \<lparr>nombre = ''Ana'', correo = ''ana@x.com'', usuario_id = 1, fecha_registro = 0\<rparr>"

definition usuario_luis :: Usuario where
  "usuario_luis = \<lparr>nombre = ''Luis'', correo = ''luis@x.com'', usuario_id = 2, fecha_registro = 1\<rparr>"

definition cancion_t :: Cancion where
  "cancion_t = \<lparr>titulo = ''T'', artista = ''Led Zeppelin'', album = ''Al'', duracion = 200,
                 anio = 2000, genero = ''Rock'', cancion_id = 1, fecha_creacion = 2\<rparr>"

definition favorito_ana_t :: Favorito where
  "favorito_ana_t = \<lparr>id_usuario = 1, id_cancion = 1, favorito_id = 1, fecha_marcado = 3\<rparr>"

definition db_sin_favoritos :: database where
  "db_sin_favoritos =
     \<lparr>usuarios = [usuario_ana, usuario_luis], canciones = [cancion_t], favoritos = []\<rparr>"

definition db_con_favorito :: database where
  "db_con_favorito =
     \<lparr>usuarios = [usuario_ana, usuario_luis], canciones = [cancion_t],
      favoritos = [favorito_ana_t]\<rparr>"

text \<open>
  Song bodies for the year check, read in the year 2026: one dated 2030, one dated 2000,
  and the two updates that supply only the year.
\<close>

definition cancion_futura :: CancionCreate where
  "cancion_futura = \<lparr>titulo = ''Cancion Futura'', artista = ''Artista Futura'',
                      album = ''Album Futuro'', duracion = 240, anio = 2030,
                      genero = ''Futurista''\<rparr>"

definition cancion_valida :: CancionCreate where
  "cancion_valida = \<lparr>titulo = ''T'', artista = ''A'', album = ''Al'', duracion = 200,
                      anio = 2000, genero = ''Rock''\<rparr>"

definition update_anio :: "int \<Rightarrow> CancionUpdate" where
  "update_anio y = \<lparr>upd_titulo = Unset, upd_artista = Unset, upd_album = Unset,
                    upd_duracion = Unset, upd_anio = Supplied (Some y), upd_genero = Unset\<rparr>"

text \<open>
  Update bodies: one that supplies only a new name, one that supplies only the email of
  Ana, and one that supplies only a title and a genre.
\<close>

definition update_nombre_luisa :: UsuarioUpdate where
  "update_nombre_luisa = \<lparr>upd_nombre = Supplied (Some ''Luisa''), upd_correo = Unset\<rparr>"

definition update_correo_ana :: UsuarioUpdate where
  "update_correo_ana = \<lparr>upd_nombre = Unset, upd_correo = Supplied (Some ''ana@x.com'')\<rparr>"

definition update_titulo_genero :: CancionUpdate where
  "update_titulo_genero =
     \<lparr>upd_titulo = Supplied (Some ''Cancion Actualizada''), upd_artista = Unset,
      upd_album = Unset, upd_duracion = Unset, upd_anio = Unset,
      upd_genero = Supplied (Some ''Pop'')\<rparr>"

text \<open>
  The favorite of Ana inserted a second time, past the handlers, as the seeding script and
  the test fixtures insert rows; and a state reached through the handlers alone.
\<close>

definition favorito_repetido :: Favorito where
  "favorito_repetido = \<lparr>id_usuario = 1, id_cancion = 1, favorito_id = 2, fecha_marcado = 4\<rparr>"

definition db_duplicado :: database where
  "db_duplicado =
     \<lparr>usuarios = [usuario_ana, usuario_luis], canciones = [cancion_t],
      favoritos = [favorito_ana_t, favorito_repetido]\<rparr>"

definition db_alcanzado :: database where
  "db_alcanzado =
     serve (serve (serve empty_db (Post_usuario 0 \<lparr>nombre = ''Ana'', correo = ''ana@x.com''\<rparr>))
              (Post_cancion 2 cancion_valida))
       (Post_favorito 3 \<lparr>id_usuario = 1, id_cancion = 1\<rparr>)"

text \<open>
  The least integer above the store's range, \<open>2 ^ 63\<close>: an id a request can carry and no
  row can have.
\<close>

definition id_fuera_de_rango :: int where
  "id_fuera_de_rango = 9223372036854775808"

lemmas ejemplos_defs =
  usuario_ana_def usuario_luis_def cancion_t_def favorito_ana_t_def
  db_sin_favoritos_def db_con_favorito_def

section \<open>Lookups and fresh keys\<close>

lemma find_Some_P: "find P xs = Some x \<Longrightarrow> P x \<and> x \<in> set xs"
  by (induction xs) (auto split: if_splits)

lemma find_mem: "x \<in> set xs \<Longrightarrow> P x \<Longrightarrow> \<exists>y. find P xs = Some y"
  by (cases "find P xs") (auto simp: find_None_iff)

lemma find_None_image: "find (\<lambda>x. k x = i) xs = None \<longleftrightarrow> i \<notin> k ` set xs"
  by (auto simp: find_None_iff)

lemma session_get_usuario_None:
  "session_get_usuario db i = Inr None \<longleftrightarrow> sqlite_int i \<and> i \<notin> usuario_id ` set (usuarios db)"
proof (cases "find (\<lambda>u. usuario_id u = i) (usuarios db)")
  case None
  then show ?thesis using find_None_image [of usuario_id i "usuarios db"]
    by (simp add: session_get_usuario_def)
next
  case (Some u)
  then have "i \<in> usuario_id ` set (usuarios db)"
    using find_None_image [of usuario_id i "usuarios db"] by simp
  then show ?thesis using Some by (simp add: session_get_usuario_def)
qed

lemma session_get_usuario_Some:
  "session_get_usuario db i = Inr (Some u) \<longleftrightarrow> find (\<lambda>u. usuario_id u = i) (usuarios db) = Some u"
  by (cases "find (\<lambda>u. usuario_id u = i) (usuarios db)") (simp_all add: session_get_usuario_def)

lemma session_get_usuario_mem:
  assumes "i \<in> usuario_id ` set (usuarios db)"
  shows "\<exists>u. session_get_usuario db i = Inr (Some u) \<and> usuario_id u = i"
proof -
  from assms obtain x where "x \<in> set (usuarios db)" "usuario_id x = i" by auto
  then obtain u where u: "find (\<lambda>u. usuario_id u = i) (usuarios db) = Some u"
    using find_mem [of x "usuarios db" "\<lambda>u. usuario_id u = i"] by auto
  then have "usuario_id u = i" using find_Some_P [OF u] by simp
  with u show ?thesis by (auto simp: session_get_usuario_Some)
qed

lemma session_get_usuario_overflow:
  "\<not> sqlite_int i \<Longrightarrow> i \<notin> usuario_id ` set (usuarios db)
   \<Longrightarrow> session_get_usuario db i = Inl OverflowError"
  using find_None_image [of usuario_id i "usuarios db"] by (simp add: session_get_usuario_def)

lemma session_get_usuario_representable:
  assumes "\<forall>u \<in> set (usuarios db). sqlite_int (usuario_id u)"
  shows "session_get_usuario db i =
         (if sqlite_int i then Inr (find (\<lambda>u. usuario_id u = i) (usuarios db))
          else Inl OverflowError)"
proof (cases "find (\<lambda>u. usuario_id u = i) (usuarios db)")
  case None
  then show ?thesis by (simp add: session_get_usuario_def)
next
  case (Some u)
  then have "usuario_id u = i" "u \<in> set (usuarios db)" using find_Some_P [OF Some] by simp_all
  then have "sqlite_int i" using assms by auto
  then show ?thesis using Some by (simp add: session_get_usuario_def)
qed

lemma session_get_cancion_None:
  "session_get_cancion db i = Inr None \<longleftrightarrow> sqlite_int i \<and> i \<notin> cancion_id ` set (canciones db)"
proof (cases "find (\<lambda>c. cancion_id c = i) (canciones db)")
  case None
  then show ?thesis using find_None_image [of cancion_id i "canciones db"]
    by (simp add: session_get_cancion_def)
next
  case (Some c)
  then have "i \<in> cancion_id ` set (canciones db)"
    using find_None_image [of cancion_id i "canciones db"] by simp
  then show ?thesis using Some by (simp add: session_get_cancion_def)
qed

lemma session_get_cancion_Some:
  "session_get_cancion db i = Inr (Some c) \<longleftrightarrow> find (\<lambda>c. cancion_id c = i) (canciones db) = Some c"
  by (cases "find (\<lambda>c. cancion_id c = i) (canciones db)") (simp_all add: session_get_cancion_def)

lemma session_get_cancion_mem:
  assumes "i \<in> cancion_id ` set (canciones db)"
  shows "\<exists>c. session_get_cancion db i = Inr (Some c) \<and> cancion_id c = i"
proof -
  from assms obtain x where "x \<in> set (canciones db)" "cancion_id x = i" by auto
  then obtain c where c: "find (\<lambda>c. cancion_id c = i) (canciones db) = Some c"
    using find_mem [of x "canciones db" "\<lambda>c. cancion_id c = i"] by auto
  then have "cancion_id c = i" using find_Some_P [OF c] by simp
  with c show ?thesis by (auto simp: session_get_cancion_Some)
qed

lemma session_get_cancion_overflow:
  "\<not> sqlite_int i \<Longrightarrow> i \<notin> cancion_id ` set (canciones db)
   \<Longrightarrow> session_get_cancion db i = Inl OverflowError"
  using find_None_image [of cancion_id i "canciones db"] by (simp add: session_get_cancion_def)

lemma session_get_cancion_representable:
  assumes "\<forall>c \<in> set (canciones db). sqlite_int (cancion_id c)"
  shows "session_get_cancion db i =
         (if sqlite_int i then Inr (find (\<lambda>c. cancion_id c = i) (canciones db))
          else Inl OverflowError)"
proof (cases "find (\<lambda>c. cancion_id c = i) (canciones db)")
  case None
  then show ?thesis by (simp add: session_get_cancion_def)
next
  case (Some c)
  then have "cancion_id c = i" "c \<in> set (canciones db)" using find_Some_P [OF Some] by simp_all
  then have "sqlite_int i" using assms by auto
  then show ?thesis using Some by (simp add: session_get_cancion_def)
qed

lemma session_get_favorito_representable:
  assumes "\<forall>f \<in> set (favoritos db). sqlite_int (favorito_id f)"
  shows "session_get_favorito db i =
         (if sqlite_int i then Inr (find (\<lambda>f. favorito_id f = i) (favoritos db))
          else Inl OverflowError)"
proof (cases "find (\<lambda>f. favorito_id f = i) (favoritos db)")
  case None
  then show ?thesis by (simp add: session_get_favorito_def)
next
  case (Some f)
  then have "favorito_id f = i" "f \<in> set (favoritos db)" using find_Some_P [OF Some] by simp_all
  then have "sqlite_int i" using assms by auto
  then show ?thesis using Some by (simp add: session_get_favorito_def)
qed

lemma select_favorito_par_None:
  "select_favorito_par db a b = Inr None \<longleftrightarrow>
     sqlite_int a \<and> sqlite_int b
     \<and> \<not> (\<exists>f \<in> set (favoritos db). id_usuario f = a \<and> id_cancion f = b)"
proof (cases "find (\<lambda>f. id_usuario f = a \<and> id_cancion f = b) (favoritos db)")
  case None
  then have "\<not> (\<exists>f \<in> set (favoritos db). id_usuario f = a \<and> id_cancion f = b)"
    by (auto simp: find_None_iff)
  then show ?thesis using None by (simp add: select_favorito_par_def)
next
  case (Some f)
  then have "\<exists>f \<in> set (favoritos db). id_usuario f = a \<and> id_cancion f = b"
    using find_Some_P [OF Some] by auto
  then show ?thesis using Some by (simp add: select_favorito_par_def)
qed

lemma select_favorito_par_mem:
  assumes "\<exists>f \<in> set (favoritos db). id_usuario f = a \<and> id_cancion f = b"
  shows "\<exists>f. select_favorito_par db a b = Inr (Some f)"
proof -
  from assms obtain x where "x \<in> set (favoritos db)" "id_usuario x = a \<and> id_cancion x = b"
    by auto
  then obtain f where
    "find (\<lambda>f. id_usuario f = a \<and> id_cancion f = b) (favoritos db) = Some f"
    using find_mem [of x "favoritos db" "\<lambda>f. id_usuario f = a \<and> id_cancion f = b"] by auto
  then show ?thesis by (simp add: select_favorito_par_def)
qed

lemma find_app:
  "find P (xs @ ys) = (case find P xs of None \<Rightarrow> find P ys | Some x \<Rightarrow> Some x)"
  by (induction xs) simp_all

lemma fold_max_ge: "(m::int) \<le> fold max xs m"
  by (induction xs arbitrary: m) (auto intro: order_trans [OF max.cobounded2])

lemma fold_max_mem: "x \<in> set xs \<Longrightarrow> (x::int) \<le> fold max xs m"
proof (induction xs arbitrary: m)
  case Nil then show ?case by simp
next
  case (Cons y ys)
  show ?case
  proof (cases "x = y")
    case True
    have "x \<le> max y m" using True by simp
    also have "\<dots> \<le> fold max ys (max y m)" by (rule fold_max_ge)
    finally show ?thesis by simp
  next
    case False
    with Cons show ?thesis by simp
  qed
qed

lemma next_id_fresh: "next_id ids \<notin> set ids"
proof
  assume "next_id ids \<in> set ids"
  then have "next_id ids \<le> fold max ids 0" by (rule fold_max_mem)
  then show False by (simp add: next_id_def)
qed

lemma crear_favorito_eq_marcar:
  "crear_favorito db now \<lparr>id_usuario = a, id_cancion = b\<rparr> = marcar_favorito_especifico db now a b"
  unfolding crear_favorito_def marcar_favorito_especifico_def Let_def
  by (simp cong: sum.case_cong option.case_cong)

section \<open>Creating a favorite\<close>

text \<open>
  For ids within the store's integer range both creation routes, the JSON-body one and
  the path-parameter one, are the same function of the pair and keep the contract: if
  the user or the song does not exist the request fails with NotFound and the store is
  unchanged; if both exist and the pair is already marked it fails with Conflict and the
  store is unchanged; otherwise exactly one row is appended to the favorites, carrying
  the pair, the current time and a fresh key, and it is the value returned. Creating the
  same pair again then fails with Conflict.
\<close>

lemma crear_favorito_en_rango:
  assumes ra: "sqlite_int a" and rb: "sqlite_int b"
  shows
  "marcar_favorito_especifico db now a b = crear_favorito db now \<lparr>id_usuario = a, id_cancion = b\<rparr>
   \<and> ((a \<notin> usuario_id ` set (usuarios db) \<or> b \<notin> cancion_id ` set (canciones db))
        \<longrightarrow> crear_favorito db now \<lparr>id_usuario = a, id_cancion = b\<rparr> = (db, Inl NotFound))
   \<and> (a \<in> usuario_id ` set (usuarios db) \<and> b \<in> cancion_id ` set (canciones db)
        \<and> (\<exists>f \<in> set (favoritos db). id_usuario f = a \<and> id_cancion f = b)
        \<longrightarrow> crear_favorito db now \<lparr>id_usuario = a, id_cancion = b\<rparr> = (db, Inl Conflict))
   \<and> (a \<in> usuario_id ` set (usuarios db) \<and> b \<in> cancion_id ` set (canciones db)
        \<and> \<not> (\<exists>f \<in> set (favoritos db). id_usuario f = a \<and> id_cancion f = b)
        \<longrightarrow> (\<exists>row db'. crear_favorito db now \<lparr>id_usuario = a, id_cancion = b\<rparr> = (db', Inr row)
               \<and> db' = db\<lparr>favoritos := favoritos db @ [row]\<rparr>
               \<and> id_usuario row = a \<and> id_cancion row = b \<and> fecha_marcado row = now
               \<and> favorito_id row \<notin> favorito_id ` set (favoritos db)
               \<and> crear_favorito db' now2 \<lparr>id_usuario = a, id_cancion = b\<rparr> = (db', Inl Conflict)))"
proof (intro conjI impI)
  show "marcar_favorito_especifico db now a b = crear_favorito db now \<lparr>id_usuario = a, id_cancion = b\<rparr>"
    by (simp add: crear_favorito_eq_marcar)
next
  assume h: "a \<notin> usuario_id ` set (usuarios db) \<or> b \<notin> cancion_id ` set (canciones db)"
  show "crear_favorito db now \<lparr>id_usuario = a, id_cancion = b\<rparr> = (db, Inl NotFound)"
  proof (cases "a \<in> usuario_id ` set (usuarios db)")
    case False
    then have "session_get_usuario db a = Inr None" using ra by (simp add: session_get_usuario_None)
    then show ?thesis by (simp add: crear_favorito_def)
  next
    case True
    from session_get_usuario_mem [OF True]
    obtain u where u: "session_get_usuario db a = Inr (Some u)" by (elim exE conjE)
    from True h have "b \<notin> cancion_id ` set (canciones db)" by simp
    then have "session_get_cancion db b = Inr None" using rb by (simp add: session_get_cancion_None)
    then show ?thesis using u by (simp add: crear_favorito_def)
  qed
next
  assume h: "a \<in> usuario_id ` set (usuarios db) \<and> b \<in> cancion_id ` set (canciones db)
        \<and> (\<exists>f \<in> set (favoritos db). id_usuario f = a \<and> id_cancion f = b)"
  then have ua: "a \<in> usuario_id ` set (usuarios db)"
    and cb: "b \<in> cancion_id ` set (canciones db)"
    and ex: "\<exists>f \<in> set (favoritos db). id_usuario f = a \<and> id_cancion f = b"
    by simp_all
  from session_get_usuario_mem [OF ua]
  obtain u where u: "session_get_usuario db a = Inr (Some u)" by (elim exE conjE)
  from session_get_cancion_mem [OF cb]
  obtain c where c: "session_get_cancion db b = Inr (Some c)" by (elim exE conjE)
  from select_favorito_par_mem [OF ex]
  obtain f where f: "select_favorito_par db a b = Inr (Some f)" by (elim exE)
  show "crear_favorito db now \<lparr>id_usuario = a, id_cancion = b\<rparr> = (db, Inl Conflict)"
    using u c f by (simp add: crear_favorito_def)
next
  assume h: "a \<in> usuario_id ` set (usuarios db) \<and> b \<in> cancion_id ` set (canciones db)
        \<and> \<not> (\<exists>f \<in> set (favoritos db). id_usuario f = a \<and> id_cancion f = b)"
  define row where "row = Favorito_model_validate now (next_id (map favorito_id (favoritos db))) \<lparr>id_usuario = a, id_cancion = b\<rparr>"
  define db' where "db' = db\<lparr>favoritos := favoritos db @ [row]\<rparr>"
  from h have ua: "a \<in> usuario_id ` set (usuarios db)"
    and cb: "b \<in> cancion_id ` set (canciones db)"
    and nex: "\<not> (\<exists>f \<in> set (favoritos db). id_usuario f = a \<and> id_cancion f = b)"
    by simp_all
  from session_get_usuario_mem [OF ua]
  obtain u where gu: "session_get_usuario db a = Inr (Some u)" by (elim exE conjE)
  from session_get_cancion_mem [OF cb]
  obtain c where gc: "session_get_cancion db b = Inr (Some c)" by (elim exE conjE)
  note g = gu gc
  have s: "select_favorito_par db a b = Inr None"
    using ra rb nex select_favorito_par_None [of db a b] by simp
  have r: "crear_favorito db now \<lparr>id_usuario = a, id_cancion = b\<rparr> = (db', Inr row)"
    using g s by (simp add: crear_favorito_def commit_add_favorito_def Let_def row_def db'_def)
  have f: "id_usuario row = a" "id_cancion row = b" "fecha_marcado row = now"
    by (simp_all add: row_def Favorito_model_validate_def)
  have fresh: "favorito_id row \<notin> favorito_id ` set (favoritos db)"
    using next_id_fresh [of "map favorito_id (favoritos db)"]
    by (simp add: row_def Favorito_model_validate_def)
  have g': "session_get_usuario db' a = Inr (Some u)" "session_get_cancion db' b = Inr (Some c)"
    using g by (simp_all add: db'_def session_get_usuario_def session_get_cancion_def)
  have ex': "\<exists>x \<in> set (favoritos db'). id_usuario x = a \<and> id_cancion x = b"
    using f by (simp add: db'_def)
  from select_favorito_par_mem [OF ex']
  obtain x where "select_favorito_par db' a b = Inr (Some x)" by (elim exE)
  then have again: "crear_favorito db' now2 \<lparr>id_usuario = a, id_cancion = b\<rparr> = (db', Inl Conflict)"
    using g' by (simp add: crear_favorito_def)
  show "\<exists>row db'. crear_favorito db now \<lparr>id_usuario = a, id_cancion = b\<rparr> = (db', Inr row)
               \<and> db' = db\<lparr>favoritos := favoritos db @ [row]\<rparr>
               \<and> id_usuario row = a \<and> id_cancion row = b \<and> fecha_marcado row = now
               \<and> favorito_id row \<notin> favorito_id ` set (favoritos db)
               \<and> crear_favorito db' now2 \<lparr>id_usuario = a, id_cancion = b\<rparr> = (db', Inl Conflict)"
    using r f fresh again db'_def by (intro exI [of _ row] exI [of _ db']) simp
qed

text \<open>
  C1. The claim is that a favorite-creation request naming a user or a song that does not
  exist fails with NotFound, on both routes. Evaluated on the state with Ana, Luis and
  one song, at the user id \<open>2 ^ 63\<close>, which is outside the store's integer range and
  which no user has: the lookup of the user raises, and both routes end in an internal
  server error instead of NotFound. So they do at the song id \<open>2 ^ 63\<close> with the user
  Ana. The store is left unchanged.
\<close>

theorem crear_favorito_id_fuera_de_rango:
  "\<not> sqlite_int id_fuera_de_rango
   \<and> id_fuera_de_rango \<notin> usuario_id ` set (usuarios db_sin_favoritos)
   \<and> id_fuera_de_rango \<notin> cancion_id ` set (canciones db_sin_favoritos)
   \<and> crear_favorito db_sin_favoritos 3 \<lparr>id_usuario = id_fuera_de_rango, id_cancion = 1\<rparr>
       = (db_sin_favoritos, Inl InternalServerError)
   \<and> marcar_favorito_especifico db_sin_favoritos 3 id_fuera_de_rango 1
       = (db_sin_favoritos, Inl InternalServerError)
   \<and> crear_favorito db_sin_favoritos 3 \<lparr>id_usuario = 1, id_cancion = id_fuera_de_rango\<rparr>
       = (db_sin_favoritos, Inl InternalServerError)
   \<and> marcar_favorito_especifico db_sin_favoritos 3 1 id_fuera_de_rango
       = (db_sin_favoritos, Inl InternalServerError)"
  by (simp add: crear_favorito_def marcar_favorito_especifico_def session_get_usuario_def
      session_get_cancion_def sqlite_int_def id_fuera_de_rango_def ejemplos_defs)

section \<open>Creating a user\<close>

text \<open>
  C7. A creation request whose email is the \<open>correo\<close> of a stored user fails with
  Conflict and leaves the store as it was: the transaction is rolled back and no row is
  written. When the email is not yet present the request succeeds: exactly one row is
  appended, carrying the request's name and email, a fresh generated key and the current
  time as \<open>fecha_registro\<close>; it is the value returned and a fetch by its key finds it.
  Creating the same user again then fails with Conflict.
\<close>

theorem crear_usuario_contract:
  "((\<exists>u \<in> set (usuarios db). correo u = correo data)
      \<longrightarrow> crear_usuario db now data = (db, Inl Conflict))
   \<and> (\<not> (\<exists>u \<in> set (usuarios db). correo u = correo data)
      \<longrightarrow> (\<exists>row db'. crear_usuario db now data = (db', Inr row)
             \<and> db' = db\<lparr>usuarios := usuarios db @ [row]\<rparr>
             \<and> nombre row = nombre data \<and> correo row = correo data
             \<and> fecha_registro row = now
             \<and> usuario_id row \<notin> usuario_id ` set (usuarios db)
             \<and> obtener_usuario db' (usuario_id row) = Inr row
             \<and> crear_usuario db' now2 data = (db', Inl Conflict)))"
proof (intro conjI impI)
  assume "\<exists>u \<in> set (usuarios db). correo u = correo data"
  then show "crear_usuario db now data = (db, Inl Conflict)"
    by (simp add: crear_usuario_def commit_add_usuario_def)
next
  assume h: "\<not> (\<exists>u \<in> set (usuarios db). correo u = correo data)"
  define row where "row = Usuario_model_validate now (next_id (map usuario_id (usuarios db))) data"
  define db' where "db' = db\<lparr>usuarios := usuarios db @ [row]\<rparr>"
  have r: "crear_usuario db now data = (db', Inr row)"
    using h by (simp add: crear_usuario_def commit_add_usuario_def Let_def row_def db'_def)
  have f: "nombre row = nombre data" "correo row = correo data" "fecha_registro row = now"
    by (simp_all add: row_def Usuario_model_validate_def)
  have fresh: "usuario_id row \<notin> usuario_id ` set (usuarios db)"
    using next_id_fresh [of "map usuario_id (usuarios db)"]
    by (simp add: row_def Usuario_model_validate_def)
  have "find (\<lambda>u. usuario_id u = usuario_id row) (usuarios db) = None"
    using fresh find_None_image [of usuario_id "usuario_id row" "usuarios db"] by simp
  then have "session_get_usuario db' (usuario_id row) = Inr (Some row)"
    by (simp add: session_get_usuario_def db'_def find_app)
  then have get: "obtener_usuario db' (usuario_id row) = Inr row"
    by (simp add: obtener_usuario_def)
  have again: "crear_usuario db' now2 data = (db', Inl Conflict)"
    using f by (simp add: crear_usuario_def commit_add_usuario_def db'_def)
  show "\<exists>row db'. crear_usuario db now data = (db', Inr row)
             \<and> db' = db\<lparr>usuarios := usuarios db @ [row]\<rparr>
             \<and> nombre row = nombre data \<and> correo row = correo data
             \<and> fecha_registro row = now
             \<and> usuario_id row \<notin> usuario_id ` set (usuarios db)
             \<and> obtener_usuario db' (usuario_id row) = Inr row
             \<and> crear_usuario db' now2 data = (db', Inl Conflict)"
    using r f fresh get again db'_def by blast
qed

theorem crear_usuario_contract_witness:
  "\<not> (\<exists>u \<in> set (usuarios empty_db). correo u = correo \<lparr>nombre = ''Ana'', correo = ''ana@x.com''\<rparr>)
   \<and> (\<exists>row db'. crear_usuario empty_db 0 \<lparr>nombre = ''Ana'', correo = ''ana@x.com''\<rparr> = (db', Inr row)
          \<and> db' = empty_db\<lparr>usuarios := usuarios empty_db @ [row]\<rparr>
          \<and> nombre row = ''Ana'' \<and> correo row = ''ana@x.com''
          \<and> fecha_registro row = 0
          \<and> usuario_id row \<notin> usuario_id ` set (usuarios empty_db)
          \<and> obtener_usuario db' (usuario_id row) = Inr row
          \<and> crear_usuario db' 1 \<lparr>nombre = ''Ana'', correo = ''ana@x.com''\<rparr> = (db', Inl Conflict))"
  using crear_usuario_contract
    [where db = empty_db and data = "\<lparr>nombre = ''Ana'', correo = ''ana@x.com''\<rparr>" and now = 0 and ?now2.0 = 1]
  by (simp add: empty_db_def)

section \<open>Search without parameters\<close>

text \<open>
  C5. For every database state and every (skip, limit), supplied or left to their
  defaults, the song search with no search parameter returns the same rows as the
  unfiltered song list.
\<close>

theorem buscar_sin_parametros_es_listar:
  "buscar_canciones db None None None None skip limit = listar_canciones db skip limit"
  by (simp add: buscar_canciones_def listar_canciones_def buscar_canciones_stmt_def
      listar_canciones_stmt_def buscar_canciones_conditions_def Let_def)

section \<open>Pagination\<close>

lemma length_session_exec:
  "0 \<le> limit_clause q \<Longrightarrow> length (session_exec q rows) \<le> nat (limit_clause q)"
  by (simp add: session_exec_def Let_def)

text \<open>
  C10. In the four list and search endpoints a supplied limit of at most 100, zero and
  negative values included, is the \<^verbatim>\<open>LIMIT\<close> of the statement the handler builds, and a
  supplied skip, negative values included, is its \<^verbatim>\<open>OFFSET\<close>: neither is rejected or
  normalised.
\<close>

theorem limit_pasa_sin_cambio:
  "(limit \<le> 100 \<longrightarrow>
       limit_clause (listar_usuarios_stmt skip' (Some limit)) = limit
     \<and> limit_clause (listar_canciones_stmt skip' (Some limit)) = limit
     \<and> limit_clause (listar_favoritos_stmt skip' (Some limit)) = limit
     \<and> limit_clause (buscar_canciones_stmt t a g y skip' (Some limit)) = limit)
   \<and> offset_clause (listar_usuarios_stmt (Some skip) limit') = skip
   \<and> offset_clause (listar_canciones_stmt (Some skip) limit') = skip
   \<and> offset_clause (listar_favoritos_stmt (Some skip) limit') = skip
   \<and> offset_clause (buscar_canciones_stmt t a g y (Some skip) limit') = skip"
  by (simp add: listar_usuarios_stmt_def listar_canciones_stmt_def listar_favoritos_stmt_def
      buscar_canciones_stmt_def param_def Let_def)

theorem limit_pasa_sin_cambio_witness:
  "(-5::int) \<le> 100
   \<and> limit_clause (listar_usuarios_stmt (Some (-3)) (Some (-5))) = -5
   \<and> limit_clause (listar_canciones_stmt (Some (-3)) (Some (-5))) = -5
   \<and> limit_clause (listar_favoritos_stmt (Some (-3)) (Some (-5))) = -5
   \<and> limit_clause (buscar_canciones_stmt None None None None (Some (-3)) (Some (-5))) = -5
   \<and> offset_clause (listar_usuarios_stmt (Some (-3)) (Some (-5))) = -3
   \<and> offset_clause (listar_canciones_stmt (Some (-3)) (Some (-5))) = -3
   \<and> offset_clause (listar_favoritos_stmt (Some (-3)) (Some (-5))) = -3
   \<and> offset_clause (buscar_canciones_stmt None None None None (Some (-3)) (Some (-5))) = -3"
  using limit_pasa_sin_cambio
    [where limit = "-5" and skip = "-3" and skip' = "Some (-3)" and limit' = "Some (-5)"
       and t = None and a = None and g = None and y = None]
  by simp


lemma session_exec_clamped:
  "limit_clause q = 100 \<Longrightarrow> length (session_exec q rows) \<le> 100"
  using length_session_exec [of q rows] by simp

text \<open>
  C9. In the four list and search endpoints an absent skip is 0 and an absent limit is
  100, and a requested limit above 100 gives the rows that limit 100 gives, at most 100
  of them, without an error; so does limit 1000.
\<close>

theorem paginacion_defaults_y_tope:
  "listar_usuarios db None limit' = listar_usuarios db (Some 0) limit'
   \<and> listar_usuarios db skip' None = listar_usuarios db skip' (Some 100)
   \<and> listar_canciones db None limit' = listar_canciones db (Some 0) limit'
   \<and> listar_canciones db skip' None = listar_canciones db skip' (Some 100)
   \<and> listar_favoritos db None limit' = listar_favoritos db (Some 0) limit'
   \<and> listar_favoritos db skip' None = listar_favoritos db skip' (Some 100)
   \<and> buscar_canciones db t a g y None limit' = buscar_canciones db t a g y (Some 0) limit'
   \<and> buscar_canciones db t a g y skip' None = buscar_canciones db t a g y skip' (Some 100)
   \<and> (limit > 100 \<longrightarrow>
         listar_usuarios db skip' (Some limit) = listar_usuarios db skip' (Some 100)
       \<and> length (listar_usuarios db skip' (Some limit)) \<le> 100
       \<and> listar_canciones db skip' (Some limit) = listar_canciones db skip' (Some 100)
       \<and> length (listar_canciones db skip' (Some limit)) \<le> 100
       \<and> listar_favoritos db skip' (Some limit) = listar_favoritos db skip' (Some 100)
       \<and> length (listar_favoritos db skip' (Some limit)) \<le> 100
       \<and> buscar_canciones db t a g y skip' (Some limit) = buscar_canciones db t a g y skip' (Some 100)
       \<and> length (buscar_canciones db t a g y skip' (Some limit)) \<le> 100)"
proof -
  have d: "listar_usuarios db None limit' = listar_usuarios db (Some 0) limit'"
    "listar_usuarios db skip' None = listar_usuarios db skip' (Some 100)"
    "listar_canciones db None limit' = listar_canciones db (Some 0) limit'"
    "listar_canciones db skip' None = listar_canciones db skip' (Some 100)"
    "listar_favoritos db None limit' = listar_favoritos db (Some 0) limit'"
    "listar_favoritos db skip' None = listar_favoritos db skip' (Some 100)"
    "buscar_canciones db t a g y None limit' = buscar_canciones db t a g y (Some 0) limit'"
    "buscar_canciones db t a g y skip' None = buscar_canciones db t a g y skip' (Some 100)"
    by (simp_all add: listar_usuarios_def listar_canciones_def listar_favoritos_def
        buscar_canciones_def listar_usuarios_stmt_def listar_canciones_stmt_def
        listar_favoritos_stmt_def buscar_canciones_stmt_def param_def)
  have c: "listar_usuarios db skip' (Some limit) = listar_usuarios db skip' (Some 100)"
    "listar_canciones db skip' (Some limit) = listar_canciones db skip' (Some 100)"
    "listar_favoritos db skip' (Some limit) = listar_favoritos db skip' (Some 100)"
    "buscar_canciones db t a g y skip' (Some limit) = buscar_canciones db t a g y skip' (Some 100)"
    if "limit > 100"
    using that
    by (simp_all add: listar_usuarios_def listar_canciones_def listar_favoritos_def
        buscar_canciones_def listar_usuarios_stmt_def listar_canciones_stmt_def
        listar_favoritos_stmt_def buscar_canciones_stmt_def param_def Let_def)
  have l: "length (listar_usuarios db skip' (Some 100)) \<le> 100"
    "length (listar_canciones db skip' (Some 100)) \<le> 100"
    "length (listar_favoritos db skip' (Some 100)) \<le> 100"
    "length (buscar_canciones db t a g y skip' (Some 100)) \<le> 100"
    unfolding listar_usuarios_def listar_canciones_def listar_favoritos_def buscar_canciones_def
    by (rule session_exec_clamped,
        simp add: listar_usuarios_stmt_def listar_canciones_stmt_def
          listar_favoritos_stmt_def buscar_canciones_stmt_def param_def Let_def)+
  show ?thesis using d c l by simp
qed

theorem paginacion_defaults_y_tope_witness:
  "(1000::int) > 100
   \<and> listar_usuarios db_sin_favoritos (Some 0) (Some 1000)
       = listar_usuarios db_sin_favoritos (Some 0) (Some 100)
   \<and> length (listar_usuarios db_sin_favoritos (Some 0) (Some 1000)) \<le> 100
   \<and> length (listar_canciones db_sin_favoritos (Some 0) (Some 1000)) \<le> 100
   \<and> length (listar_favoritos db_sin_favoritos (Some 0) (Some 1000)) \<le> 100
   \<and> length (buscar_canciones db_sin_favoritos None None None None (Some 0) (Some 1000)) \<le> 100"
proof -
  have h: "(1000::int) > 100" by simp
  from h paginacion_defaults_y_tope
    [where db = db_sin_favoritos and limit = 1000 and skip' = "Some 0" and limit' = None
       and t = None and a = None and g = None and y = None]
  show ?thesis by blast
qed

section \<open>The year of a song\<close>

lemma CancionUpdate_anio_same:
  "upd_anio u = f \<Longrightarrow> u\<lparr>upd_anio := f\<rparr> = u"
  by auto

text \<open>
  C8. A song body whose year is greater than the current calendar year is rejected with a
  validation error, at creation and at update, and the store is not touched. A year
  within 1900..2100 that is not greater than the current year passes the year check of
  both models; when the other fields of the body are within their bounds, the body is
  accepted unchanged and the route runs its handler.
\<close>

theorem anio_no_futuro:
  "(anio data > anio_actual \<longrightarrow>
        CancionCreate_validate anio_actual data = Inl ValidationError
      \<and> POST_canciones anio_actual db now data = (db, Inl ValidationError))
   \<and> (upd_anio u = Supplied (Some v) \<and> v > anio_actual \<longrightarrow>
        CancionUpdate_validate anio_actual u = Inl ValidationError
      \<and> PUT_canciones anio_actual db i u = (db, Inl ValidationError))
   \<and> (1900 \<le> w \<and> w \<le> 2100 \<and> w \<le> anio_actual \<longrightarrow>
        CancionBase_anio anio_actual w = Inr w
      \<and> CancionUpdate_anio anio_actual (Supplied (Some w)) = Inr (Supplied (Some w)))
   \<and> (1900 \<le> anio data \<and> anio data \<le> 2100 \<and> anio data \<le> anio_actual
        \<and> str_ok 1 200 (titulo data) \<and> str_ok 1 100 (artista data) \<and> str_ok 1 200 (album data)
        \<and> duracion_ok (duracion data) \<and> str_ok 1 50 (genero data) \<longrightarrow>
        CancionCreate_validate anio_actual data = Inr data
      \<and> POST_canciones anio_actual db now data = crear_cancion db now data)
   \<and> (upd_anio u = Supplied (Some w) \<and> 1900 \<le> w \<and> w \<le> 2100 \<and> w \<le> anio_actual
        \<and> str_field_ok 1 200 (upd_titulo u) \<and> str_field_ok 1 100 (upd_artista u)
        \<and> str_field_ok 1 200 (upd_album u) \<and> duracion_field_ok (upd_duracion u)
        \<and> str_field_ok 1 50 (upd_genero u) \<longrightarrow>
        CancionUpdate_validate anio_actual u = Inr u
      \<and> PUT_canciones anio_actual db i u = actualizar_cancion db i u)"
proof (intro conjI impI; (elim conjE)?)
  assume h: "anio data > anio_actual"
  show c: "CancionCreate_validate anio_actual data = Inl ValidationError"
    using h by (simp add: CancionCreate_validate_def CancionBase_anio_def
        CancionBase_validar_anio_no_futuro_def)
  show "POST_canciones anio_actual db now data = (db, Inl ValidationError)"
    by (simp add: POST_canciones_def c)
next
  assume h: "upd_anio u = Supplied (Some v)" "v > anio_actual"
  show c: "CancionUpdate_validate anio_actual u = Inl ValidationError"
    using h by (simp add: CancionUpdate_validate_def CancionUpdate_anio_def
        CancionUpdate_validar_anio_no_futuro_def)
  show "PUT_canciones anio_actual db i u = (db, Inl ValidationError)"
    by (simp add: PUT_canciones_def c)
next
  assume h: "1900 \<le> w" "w \<le> 2100" "w \<le> anio_actual"
  show "CancionBase_anio anio_actual w = Inr w"
    using h by (simp add: CancionBase_anio_def CancionBase_validar_anio_no_futuro_def)
  show "CancionUpdate_anio anio_actual (Supplied (Some w)) = Inr (Supplied (Some w))"
    using h by (simp add: CancionUpdate_anio_def CancionUpdate_validar_anio_no_futuro_def)
next
  assume h: "1900 \<le> anio data" "anio data \<le> 2100" "anio data \<le> anio_actual"
    "str_ok 1 200 (titulo data)" "str_ok 1 100 (artista data)" "str_ok 1 200 (album data)"
    "duracion_ok (duracion data)" "str_ok 1 50 (genero data)"
  show c: "CancionCreate_validate anio_actual data = Inr data"
    using h by (simp add: CancionCreate_validate_def CancionBase_anio_def
        CancionBase_validar_anio_no_futuro_def)
  show "POST_canciones anio_actual db now data = crear_cancion db now data"
    by (simp add: POST_canciones_def c)
next
  assume h: "upd_anio u = Supplied (Some w)" "1900 \<le> w" "w \<le> 2100" "w \<le> anio_actual"
    "str_field_ok 1 200 (upd_titulo u)" "str_field_ok 1 100 (upd_artista u)"
    "str_field_ok 1 200 (upd_album u)" "duracion_field_ok (upd_duracion u)"
    "str_field_ok 1 50 (upd_genero u)"
  show c: "CancionUpdate_validate anio_actual u = Inr u"
    using h by (simp add: CancionUpdate_validate_def CancionUpdate_anio_def
        CancionUpdate_validar_anio_no_futuro_def CancionUpdate_anio_same)
  show "PUT_canciones anio_actual db i u = actualizar_cancion db i u"
    by (simp add: PUT_canciones_def c)
qed


theorem anio_no_futuro_witness:
  "anio cancion_futura > 2026
   \<and> POST_canciones 2026 empty_db 0 cancion_futura = (empty_db, Inl ValidationError)
   \<and> upd_anio (update_anio 2030) = Supplied (Some 2030)
   \<and> PUT_canciones 2026 db_sin_favoritos 1 (update_anio 2030)
       = (db_sin_favoritos, Inl ValidationError)
   \<and> CancionBase_anio 2026 2000 = Inr 2000
   \<and> CancionUpdate_anio 2026 (Supplied (Some 2000)) = Inr (Supplied (Some 2000))
   \<and> CancionCreate_validate 2026 cancion_valida = Inr cancion_valida
   \<and> CancionUpdate_validate 2026 (update_anio 2000) = Inr (update_anio 2000)"
proof -
  note rechazo = anio_no_futuro
    [where data = cancion_futura and anio_actual = 2026 and db = empty_db and now = 0
       and u = "update_anio 2030" and v = 2030 and w = 2000 and i = 1]
  note rechazo_put = anio_no_futuro
    [where data = cancion_futura and anio_actual = 2026 and db = db_sin_favoritos and now = 0
       and u = "update_anio 2030" and v = 2030 and w = 2000 and i = 1]
  note acepta = anio_no_futuro
    [where data = cancion_valida and anio_actual = 2026 and db = empty_db and now = 0
       and u = "update_anio 2000" and v = 2030 and w = 2000 and i = 1]
  have h: "anio cancion_futura > 2026" "upd_anio (update_anio 2030) = Supplied (Some 2030)"
    "upd_anio (update_anio 2000) = Supplied (Some 2000)"
    "anio cancion_valida = 2000"
    "str_ok 1 200 (titulo cancion_valida)" "str_ok 1 100 (artista cancion_valida)"
    "str_ok 1 200 (album cancion_valida)" "duracion_ok (duracion cancion_valida)"
    "str_ok 1 50 (genero cancion_valida)"
    "str_field_ok 1 200 (upd_titulo (update_anio 2000))"
    "str_field_ok 1 100 (upd_artista (update_anio 2000))"
    "str_field_ok 1 200 (upd_album (update_anio 2000))"
    "duracion_field_ok (upd_duracion (update_anio 2000))"
    "str_field_ok 1 50 (upd_genero (update_anio 2000))"
    by (simp_all add: cancion_futura_def cancion_valida_def update_anio_def str_ok_def
        str_field_ok_def duracion_ok_def duracion_field_ok_def)
  show ?thesis using rechazo rechazo_put acepta h by simp
qed

section \<open>Deleting a user or a song\<close>

text \<open>
  C2. The claim is that deleting an existing user or song succeeds and removes the
  favorites that reference it. The handlers delete the parent only, and nothing in the
  models makes the store cascade. Evaluated on the state where Ana has marked the song:
  deleting Ana fails with an internal error and changes nothing, so Ana and the favorite
  are still fetched afterwards; deleting the song does the same.
\<close>

theorem eliminar_con_favoritos_falla:
  "eliminar_usuario db_con_favorito 1 = (db_con_favorito, Inl InternalServerError)
   \<and> obtener_usuario (fst (eliminar_usuario db_con_favorito 1)) 1 = Inr usuario_ana
   \<and> obtener_favorito (fst (eliminar_usuario db_con_favorito 1)) 1 = Inr favorito_ana_t
   \<and> eliminar_cancion db_con_favorito 1 = (db_con_favorito, Inl InternalServerError)
   \<and> obtener_cancion (fst (eliminar_cancion db_con_favorito 1)) 1 = Inr cancion_t
   \<and> obtener_favorito (fst (eliminar_cancion db_con_favorito 1)) 1 = Inr favorito_ana_t"
  by (simp add: eliminar_usuario_def eliminar_cancion_def commit_delete_usuario_def
      commit_delete_cancion_def session_get_usuario_def session_get_cancion_def
      session_get_favorito_def obtener_usuario_def obtener_cancion_def obtener_favorito_def
      sqlite_int_def ejemplos_defs)

section \<open>Searching songs\<close>

lemma lower_char_comodin:
  "lower_char c = CHR ''%'' \<longleftrightarrow> c = CHR ''%''"
  "lower_char c = CHR ''_'' \<longleftrightarrow> c = CHR ''_''"
  "CHR ''%'' = lower_char c \<longleftrightarrow> c = CHR ''%''"
  "CHR ''_'' = lower_char c \<longleftrightarrow> c = CHR ''_''"
  by (auto simp: lower_char_def split: if_splits)

lemma like_percent: "like ''%'' s"
  by (induction s) simp_all

lemma like_es_prefijo:
  "CHR ''%'' \<notin> set p \<Longrightarrow> CHR ''_'' \<notin> set p \<Longrightarrow> like (p @ ''%'') s = es_prefijo p s"
proof (induction p arbitrary: s)
  case Nil
  then show ?case by (simp add: like_percent)
next
  case (Cons x xs)
  then show ?case by (cases s) auto
qed

lemma like_contiene:
  assumes "CHR ''%'' \<notin> set p" "CHR ''_'' \<notin> set p"
  shows "like (CHR ''%'' # p @ ''%'') s = contiene s p"
proof (induction s)
  case Nil
  have "like (p @ ''%'') [] = es_prefijo p []" using assms by (rule like_es_prefijo)
  then show ?case by (cases p) simp_all
next
  case (Cons c s)
  have "like (p @ ''%'') (c # s) = es_prefijo p (c # s)" using assms by (rule like_es_prefijo)
  with Cons show ?case by simp
qed

lemma ilike_contiene_sin_caso:
  assumes "CHR ''%'' \<notin> set t" "CHR ''_'' \<notin> set t"
  shows "ilike s (CHR ''%'' # t @ ''%'') = contiene_sin_caso s t"
proof -
  have "CHR ''%'' \<notin> set (map lower_char t)"
  proof
    assume "CHR ''%'' \<in> set (map lower_char t)"
    then obtain x where "x \<in> set t" "lower_char x = CHR ''%''" by auto
    then have "CHR ''%'' \<in> set t" by (simp add: lower_char_comodin)
    with assms show False by simp
  qed
  moreover have "CHR ''_'' \<notin> set (map lower_char t)"
  proof
    assume "CHR ''_'' \<in> set (map lower_char t)"
    then obtain x where "x \<in> set t" "lower_char x = CHR ''_''" by auto
    then have "CHR ''_'' \<in> set t" by (simp add: lower_char_comodin)
    with assms show False by simp
  qed
  ultimately have a: "CHR ''%'' \<notin> set (map lower_char t)" "CHR ''_'' \<notin> set (map lower_char t)"
    by simp_all
  have b: "map lower_char (CHR ''%'' # t @ ''%'') = CHR ''%'' # map lower_char t @ ''%''"
    by (simp add: lower_char_def)
  show ?thesis
    unfolding ilike_def contiene_sin_caso_def b using a by (rule like_contiene)
qed

lemma contiene_vacio: "contiene s []"
  by (cases s) simp_all

lemma cond_str:
  "sin_comodines p \<Longrightarrow>
   list_all (\<lambda>q. q c) (case p of None \<Rightarrow> [] | Some t \<Rightarrow> if t = [] then [] else [\<lambda>c. ilike (f c) (''%'' @ t @ ''%'')])
   = (case p of None \<Rightarrow> True | Some t \<Rightarrow> contiene_sin_caso (f c) t)"
  by (auto simp: sin_comodines_def ilike_contiene_sin_caso contiene_sin_caso_def contiene_vacio split: option.splits)

lemma buscar_canciones_sin_comodines:
  assumes "sin_comodines titulo'" "sin_comodines artista'" "sin_comodines genero'" "anio' \<noteq> Some 0"
  shows "buscar_canciones db titulo' artista' genero' anio' skip' limit'
         = spec_buscar_canciones db titulo' artista' genero' anio' skip' limit'"
proof -
  let ?cs = "buscar_canciones_conditions titulo' artista' genero' anio'"
  have w: "(case ?cs of [] \<Rightarrow> (\<lambda>_. True) | _ # _ \<Rightarrow> (\<lambda>c. list_all (\<lambda>p. p c) ?cs)) c
           = list_all (\<lambda>p. p c) ?cs" for c
    by (cases ?cs) simp_all
  have "list_all (\<lambda>p. p c) ?cs = spec_predicado titulo' artista' genero' anio' c" for c
    using assms(4)
    by (simp add: buscar_canciones_conditions_def spec_predicado_def
        cond_str [OF assms(1)] cond_str [OF assms(2)] cond_str [OF assms(3)]
        split: option.splits)
  with w have "(case ?cs of [] \<Rightarrow> (\<lambda>_. True) | _ # _ \<Rightarrow> (\<lambda>c. list_all (\<lambda>p. p c) ?cs))
           = spec_predicado titulo' artista' genero' anio'"
    by (intro ext) simp
  then show ?thesis
    by (simp add: buscar_canciones_def spec_buscar_canciones_def buscar_canciones_stmt_def Let_def)
qed


text \<open>
  C4. The claim is that the search returns the rows satisfying every supplied predicate,
  text by case-insensitive containment and the year by equality. Evaluated on the state
  with the one song of the year 2000 by Led Zeppelin: a search for the year 0 returns the
  song, where the specification's search returns nothing; so does a search for the artist
  text \<^verbatim>\<open>L_d\<close>, which the artist does not contain. The mixed-case part \<^verbatim>\<open>zEpP\<close> of the
  artist is found by both.
\<close>

theorem buscar_anio_cero_no_filtra:
  "buscar_canciones db_sin_favoritos None None None (Some 0) None None = [cancion_t]
   \<and> spec_buscar_canciones db_sin_favoritos None None None (Some 0) None None = []
   \<and> buscar_canciones db_sin_favoritos None (Some ''L_d'') None None None None = [cancion_t]
   \<and> spec_buscar_canciones db_sin_favoritos None (Some ''L_d'') None None None None = []
   \<and> buscar_canciones db_sin_favoritos None (Some ''zEpP'') None None None None = [cancion_t]
   \<and> spec_buscar_canciones db_sin_favoritos None (Some ''zEpP'') None None None None = [cancion_t]"
  by (simp add: buscar_canciones_def spec_buscar_canciones_def buscar_canciones_stmt_def
      buscar_canciones_conditions_def spec_predicado_def session_exec_def param_def
      ilike_def contiene_sin_caso_def lower_char_def ejemplos_defs)



section \<open>Partial update\<close>

lemma find_map_pres:
  "(\<And>y. P (f y) = P y) \<Longrightarrow> find P (map f xs) = map_option f (find P xs)"
  by (induction xs) simp_all

lemma session_get_usuario_map:
  assumes "\<And>y. usuario_id (f y) = usuario_id y"
  shows "session_get_usuario (db\<lparr>usuarios := map f (usuarios db)\<rparr>) j
         = map_sum id (map_option f) (session_get_usuario db j)"
proof -
  have fm: "find (\<lambda>u. usuario_id u = j) (map f (usuarios db))
            = map_option f (find (\<lambda>u. usuario_id u = j) (usuarios db))"
    using find_map_pres [of "\<lambda>u. usuario_id u = j" f "usuarios db"] assms by simp
  show ?thesis
    by (cases "find (\<lambda>u. usuario_id u = j) (usuarios db)")
      (simp_all add: session_get_usuario_def fm)
qed

lemma session_get_cancion_map:
  assumes "\<And>y. cancion_id (f y) = cancion_id y"
  shows "session_get_cancion (db\<lparr>canciones := map f (canciones db)\<rparr>) j
         = map_sum id (map_option f) (session_get_cancion db j)"
proof -
  have fm: "find (\<lambda>c. cancion_id c = j) (map f (canciones db))
            = map_option f (find (\<lambda>c. cancion_id c = j) (canciones db))"
    using find_map_pres [of "\<lambda>c. cancion_id c = j" f "canciones db"] assms by simp
  show ?thesis
    by (cases "find (\<lambda>c. cancion_id c = j) (canciones db)")
      (simp_all add: session_get_cancion_def fm)
qed

lemma session_get_usuario_id:
  "session_get_usuario db i = Inr (Some u) \<Longrightarrow> usuario_id u = i"
  using find_Some_P [of "\<lambda>u. usuario_id u = i" "usuarios db" u]
  by (simp add: session_get_usuario_Some)

lemma session_get_cancion_id:
  "session_get_cancion db i = Inr (Some c) \<Longrightarrow> cancion_id c = i"
  using find_Some_P [of "\<lambda>c. cancion_id c = i" "canciones db" c]
  by (simp add: session_get_cancion_Some)

lemma setattr_field_value:
  "f \<noteq> Supplied None \<Longrightarrow>
   \<exists>v. setattr_field f old = Some v \<and> (f = Unset \<longrightarrow> v = old) \<and> (\<forall>w. f = Supplied (Some w) \<longrightarrow> v = w)"
  by (cases f) (auto simp: setattr_field_def)

lemma actualizar_usuario_not_found:
  "sqlite_int i \<Longrightarrow> i \<notin> usuario_id ` set (usuarios db)
   \<Longrightarrow> actualizar_usuario db i u = (db, Inl NotFound)"
  using session_get_usuario_None [of db i] by (simp add: actualizar_usuario_def)

lemma actualizar_usuario_conflict:
  assumes "session_get_usuario db i = Inr (Some old)"
    and "\<exists>x \<in> set (usuarios db). usuario_id x \<noteq> i \<and> upd_correo u = Supplied (Some (correo x))"
  shows "actualizar_usuario db i u = (db, Inl Conflict)"
proof -
  have id: "usuario_id old = i"
    using assms(1) by (rule session_get_usuario_id)
  from assms(2) obtain x where x: "x \<in> set (usuarios db)" "usuario_id x \<noteq> i"
    "upd_correo u = Supplied (Some (correo x))" by blast
  have "commit_update_usuario db old (setattr_field (upd_nombre u) (nombre old))
          (setattr_field (upd_correo u) (correo old)) = Inl IntegrityError"
    using x id by (auto simp: commit_update_usuario_def setattr_field_def split: option.splits)
  then show ?thesis using assms(1) by (simp add: actualizar_usuario_def)
qed

lemma actualizar_usuario_ok:
  assumes g: "session_get_usuario db i = Inr (Some old)"
    and nn: "upd_nombre u \<noteq> Supplied None" "upd_correo u \<noteq> Supplied None"
    and free: "\<forall>x \<in> set (usuarios db). usuario_id x \<noteq> i \<longrightarrow>
                 setattr_field (upd_correo u) (correo old) \<noteq> Some (correo x)"
  shows "\<exists>row db'. actualizar_usuario db i u = (db', Inr row)
           \<and> usuario_id row = i \<and> fecha_registro row = fecha_registro old
           \<and> (upd_nombre u = Unset \<longrightarrow> nombre row = nombre old)
           \<and> (\<forall>v. upd_nombre u = Supplied (Some v) \<longrightarrow> nombre row = v)
           \<and> (upd_correo u = Unset \<longrightarrow> correo row = correo old)
           \<and> (\<forall>v. upd_correo u = Supplied (Some v) \<longrightarrow> correo row = v)
           \<and> session_get_usuario db' i = Inr (Some row)
           \<and> (\<forall>j. j \<noteq> i \<longrightarrow> session_get_usuario db' j = session_get_usuario db j)
           \<and> map usuario_id (usuarios db') = map usuario_id (usuarios db)
           \<and> canciones db' = canciones db \<and> favoritos db' = favoritos db"
proof -
  have id: "usuario_id old = i"
    using g by (rule session_get_usuario_id)
  from setattr_field_value [OF nn(1), of "nombre old"] obtain n where
    n: "setattr_field (upd_nombre u) (nombre old) = Some n"
       "upd_nombre u = Unset \<longrightarrow> n = nombre old"
       "\<forall>w. upd_nombre u = Supplied (Some w) \<longrightarrow> n = w" by blast
  from setattr_field_value [OF nn(2), of "correo old"] obtain c where
    c: "setattr_field (upd_correo u) (correo old) = Some c"
       "upd_correo u = Unset \<longrightarrow> c = correo old"
       "\<forall>w. upd_correo u = Supplied (Some w) \<longrightarrow> c = w" by blast
  define row where "row = old\<lparr>nombre := n, correo := c\<rparr>"
  define f where "f = (\<lambda>u. if usuario_id u = usuario_id old then row else u)"
  define db' where "db' = db\<lparr>usuarios := map f (usuarios db)\<rparr>"
  have nocol: "\<not> (\<exists>x \<in> set (usuarios db). usuario_id x \<noteq> usuario_id old \<and> correo x = c)"
    using free c(1) id by auto
  have "commit_update_usuario db old (Some n) (Some c) = Inr (db', row)"
    using nocol by (simp add: commit_update_usuario_def Let_def db'_def f_def row_def)
  then have r: "actualizar_usuario db i u = (db', Inr row)"
    using g n(1) c(1) by (simp add: actualizar_usuario_def)
  have fid: "usuario_id (f y) = usuario_id y" for y
    by (simp add: f_def row_def)
  have get: "session_get_usuario db' j = map_sum id (map_option f) (session_get_usuario db j)"
    for j
    unfolding db'_def using fid by (rule session_get_usuario_map)
  have gi: "session_get_usuario db' i = Inr (Some row)"
    using get [of i] g id by (simp add: f_def)
  have gj: "session_get_usuario db' j = session_get_usuario db j" if "j \<noteq> i" for j
  proof (cases "session_get_usuario db j")
    case (Inl e)
    then show ?thesis using get [of j] by simp
  next
    case (Inr res)
    show ?thesis
    proof (cases res)
      case None
      then show ?thesis using get [of j] Inr by simp
    next
      case (Some y)
      then have "usuario_id y = j" using Inr session_get_usuario_id by simp
      then have "f y = y" using that id by (simp add: f_def)
      then show ?thesis using get [of j] Inr Some by simp
    qed
  qed
  have ids: "map usuario_id (usuarios db') = map usuario_id (usuarios db)"
    by (simp add: db'_def fid)
  have rest: "canciones db' = canciones db" "favoritos db' = favoritos db"
    by (simp_all add: db'_def)
  have fields: "usuario_id row = i" "fecha_registro row = fecha_registro old"
    "nombre row = n" "correo row = c"
    using id by (simp_all add: row_def)
  show ?thesis
    using r fields n(2,3) c(2,3) gi gj ids rest by (intro exI [of _ row] exI [of _ db']) simp
qed


lemma actualizar_cancion_not_found:
  "sqlite_int i \<Longrightarrow> i \<notin> cancion_id ` set (canciones db)
   \<Longrightarrow> actualizar_cancion db i u = (db, Inl NotFound)"
  using session_get_cancion_None [of db i] by (simp add: actualizar_cancion_def)

lemma setattr_cancion_ok:
  assumes "upd_titulo u \<noteq> Supplied None" "upd_artista u \<noteq> Supplied None"
    "upd_album u \<noteq> Supplied None" "upd_duracion u \<noteq> Supplied None"
    "upd_anio u \<noteq> Supplied None" "upd_genero u \<noteq> Supplied None"
  shows "\<exists>row. setattr_cancion old u = Some row
           \<and> cancion_id row = cancion_id old \<and> fecha_creacion row = fecha_creacion old
           \<and> (upd_titulo u = Unset \<longrightarrow> titulo row = titulo old)
           \<and> (\<forall>v. upd_titulo u = Supplied (Some v) \<longrightarrow> titulo row = v)
           \<and> (upd_artista u = Unset \<longrightarrow> artista row = artista old)
           \<and> (\<forall>v. upd_artista u = Supplied (Some v) \<longrightarrow> artista row = v)
           \<and> (upd_album u = Unset \<longrightarrow> album row = album old)
           \<and> (\<forall>v. upd_album u = Supplied (Some v) \<longrightarrow> album row = v)
           \<and> (upd_duracion u = Unset \<longrightarrow> duracion row = duracion old)
           \<and> (\<forall>v. upd_duracion u = Supplied (Some v) \<longrightarrow> duracion row = v)
           \<and> (upd_anio u = Unset \<longrightarrow> anio row = anio old)
           \<and> (\<forall>v. upd_anio u = Supplied (Some v) \<longrightarrow> anio row = v)
           \<and> (upd_genero u = Unset \<longrightarrow> genero row = genero old)
           \<and> (\<forall>v. upd_genero u = Supplied (Some v) \<longrightarrow> genero row = v)"
proof -
  from setattr_field_value [OF assms(1), of "titulo old"] obtain t where
    t: "setattr_field (upd_titulo u) (titulo old) = Some t"
       "upd_titulo u = Unset \<longrightarrow> t = titulo old"
       "\<forall>w. upd_titulo u = Supplied (Some w) \<longrightarrow> t = w" by blast
  from setattr_field_value [OF assms(2), of "artista old"] obtain ar where
    ar: "setattr_field (upd_artista u) (artista old) = Some ar"
       "upd_artista u = Unset \<longrightarrow> ar = artista old"
       "\<forall>w. upd_artista u = Supplied (Some w) \<longrightarrow> ar = w" by blast
  from setattr_field_value [OF assms(3), of "album old"] obtain al where
    al: "setattr_field (upd_album u) (album old) = Some al"
       "upd_album u = Unset \<longrightarrow> al = album old"
       "\<forall>w. upd_album u = Supplied (Some w) \<longrightarrow> al = w" by blast
  from setattr_field_value [OF assms(4), of "duracion old"] obtain d where
    d: "setattr_field (upd_duracion u) (duracion old) = Some d"
       "upd_duracion u = Unset \<longrightarrow> d = duracion old"
       "\<forall>w. upd_duracion u = Supplied (Some w) \<longrightarrow> d = w" by blast
  from setattr_field_value [OF assms(5), of "anio old"] obtain a where
    a: "setattr_field (upd_anio u) (anio old) = Some a"
       "upd_anio u = Unset \<longrightarrow> a = anio old"
       "\<forall>w. upd_anio u = Supplied (Some w) \<longrightarrow> a = w" by blast
  from setattr_field_value [OF assms(6), of "genero old"] obtain g where
    g: "setattr_field (upd_genero u) (genero old) = Some g"
       "upd_genero u = Unset \<longrightarrow> g = genero old"
       "\<forall>w. upd_genero u = Supplied (Some w) \<longrightarrow> g = w" by blast
  define row where "row = old\<lparr>titulo := t, artista := ar, album := al, duracion := d,
                       anio := a, genero := g\<rparr>"
  have s: "setattr_cancion old u = Some row"
    by (simp add: setattr_cancion_def t(1) ar(1) al(1) d(1) a(1) g(1) row_def)
  have fields: "cancion_id row = cancion_id old" "fecha_creacion row = fecha_creacion old"
    "titulo row = t" "artista row = ar" "album row = al" "duracion row = d" "anio row = a"
    "genero row = g"
    by (simp_all add: row_def)
  show ?thesis
    using s fields t(2,3) ar(2,3) al(2,3) d(2,3) a(2,3) g(2,3)
    by (intro exI [of _ row]) simp
qed

lemma actualizar_cancion_ok:
  assumes gt: "session_get_cancion db i = Inr (Some old)"
    and nn: "upd_titulo u \<noteq> Supplied None" "upd_artista u \<noteq> Supplied None"
    "upd_album u \<noteq> Supplied None" "upd_duracion u \<noteq> Supplied None"
    "upd_anio u \<noteq> Supplied None" "upd_genero u \<noteq> Supplied None"
  shows "\<exists>row db'. actualizar_cancion db i u = (db', Inr row)
           \<and> cancion_id row = i \<and> fecha_creacion row = fecha_creacion old
           \<and> (upd_titulo u = Unset \<longrightarrow> titulo row = titulo old)
           \<and> (\<forall>v. upd_titulo u = Supplied (Some v) \<longrightarrow> titulo row = v)
           \<and> (upd_artista u = Unset \<longrightarrow> artista row = artista old)
           \<and> (\<forall>v. upd_artista u = Supplied (Some v) \<longrightarrow> artista row = v)
           \<and> (upd_album u = Unset \<longrightarrow> album row = album old)
           \<and> (\<forall>v. upd_album u = Supplied (Some v) \<longrightarrow> album row = v)
           \<and> (upd_duracion u = Unset \<longrightarrow> duracion row = duracion old)
           \<and> (\<forall>v. upd_duracion u = Supplied (Some v) \<longrightarrow> duracion row = v)
           \<and> (upd_anio u = Unset \<longrightarrow> anio row = anio old)
           \<and> (\<forall>v. upd_anio u = Supplied (Some v) \<longrightarrow> anio row = v)
           \<and> (upd_genero u = Unset \<longrightarrow> genero row = genero old)
           \<and> (\<forall>v. upd_genero u = Supplied (Some v) \<longrightarrow> genero row = v)
           \<and> session_get_cancion db' i = Inr (Some row)
           \<and> (\<forall>j. j \<noteq> i \<longrightarrow> session_get_cancion db' j = session_get_cancion db j)
           \<and> map cancion_id (canciones db') = map cancion_id (canciones db)
           \<and> usuarios db' = usuarios db \<and> favoritos db' = favoritos db"
proof -
  have id: "cancion_id old = i"
    using gt by (rule session_get_cancion_id)
  from setattr_cancion_ok [OF nn, of old] obtain row where
    s: "setattr_cancion old u = Some row"
    and k: "cancion_id row = cancion_id old" "fecha_creacion row = fecha_creacion old"
    and fs: "(upd_titulo u = Unset \<longrightarrow> titulo row = titulo old)
           \<and> (\<forall>v. upd_titulo u = Supplied (Some v) \<longrightarrow> titulo row = v)
           \<and> (upd_artista u = Unset \<longrightarrow> artista row = artista old)
           \<and> (\<forall>v. upd_artista u = Supplied (Some v) \<longrightarrow> artista row = v)
           \<and> (upd_album u = Unset \<longrightarrow> album row = album old)
           \<and> (\<forall>v. upd_album u = Supplied (Some v) \<longrightarrow> album row = v)
           \<and> (upd_duracion u = Unset \<longrightarrow> duracion row = duracion old)
           \<and> (\<forall>v. upd_duracion u = Supplied (Some v) \<longrightarrow> duracion row = v)
           \<and> (upd_anio u = Unset \<longrightarrow> anio row = anio old)
           \<and> (\<forall>v. upd_anio u = Supplied (Some v) \<longrightarrow> anio row = v)
           \<and> (upd_genero u = Unset \<longrightarrow> genero row = genero old)
           \<and> (\<forall>v. upd_genero u = Supplied (Some v) \<longrightarrow> genero row = v)"
    by blast
  define f where "f = (\<lambda>c. if cancion_id c = cancion_id old then row else c)"
  define db' where "db' = db\<lparr>canciones := map f (canciones db)\<rparr>"
  have r: "actualizar_cancion db i u = (db', Inr row)"
    using gt s by (simp add: actualizar_cancion_def commit_update_cancion_def db'_def f_def)
  have fid: "cancion_id (f y) = cancion_id y" for y
    by (simp add: f_def k)
  have get: "session_get_cancion db' j = map_sum id (map_option f) (session_get_cancion db j)"
    for j
    unfolding db'_def using fid by (rule session_get_cancion_map)
  have gi: "session_get_cancion db' i = Inr (Some row)"
    using get [of i] gt id by (simp add: f_def)
  have gj: "session_get_cancion db' j = session_get_cancion db j" if "j \<noteq> i" for j
  proof (cases "session_get_cancion db j")
    case (Inl e)
    then show ?thesis using get [of j] by simp
  next
    case (Inr res)
    show ?thesis
    proof (cases res)
      case None
      then show ?thesis using get [of j] Inr by simp
    next
      case (Some y)
      then have "cancion_id y = j" using Inr session_get_cancion_id by simp
      then have "f y = y" using that id by (simp add: f_def)
      then show ?thesis using get [of j] Inr Some by simp
    qed
  qed
  have ids: "map cancion_id (canciones db') = map cancion_id (canciones db)"
    by (simp add: db'_def fid)
  have rest: "usuarios db' = usuarios db" "favoritos db' = favoritos db"
    by (simp_all add: db'_def)
  have ki: "cancion_id row = i" using k id by simp
  show ?thesis
    using r ki k(2) fs gi gj ids rest by (intro exI [of _ row] exI [of _ db']) simp
qed

text \<open>
  C6, as claimed: every partial update of an existing user returns the updated row. It
  does not when the supplied email belongs to another user: Luis exists, and the update
  that gives him the email of Ana fails with Conflict and changes nothing.
\<close>

theorem actualizar_usuario_colision_counterexample:
  "obtener_usuario db_sin_favoritos 2 = Inr usuario_luis
   \<and> actualizar_usuario db_sin_favoritos 2 update_correo_ana = (db_sin_favoritos, Inl Conflict)"
  by (simp add: obtener_usuario_def actualizar_usuario_def commit_update_usuario_def
      session_get_usuario_def setattr_field_def ejemplos_defs update_correo_ana_def)

text \<open>
  C6, amended. For an id within the store's integer range: an update of a user or song
  that does not exist fails with NotFound and changes nothing. An update of a user that
  supplies the email of another user fails with Conflict and changes nothing. Otherwise,
  when no supplied field is null (and, for a user, no other user holds the email the row
  would have), the update succeeds and returns the updated row: each supplied field has the supplied value, each unset field,
  the key and the creation timestamp are those of the row before, the row is what a
  fetch by its key now finds, every other row is fetched as before, no row is added or
  removed, and the other two tables are unchanged.
\<close>

theorem actualizar_parcial:
  "(sqlite_int i \<and> i \<notin> usuario_id ` set (usuarios db)
        \<longrightarrow> actualizar_usuario db i u = (db, Inl NotFound))
   \<and> (sqlite_int k \<and> k \<notin> cancion_id ` set (canciones db)
        \<longrightarrow> actualizar_cancion db k cu = (db, Inl NotFound))
   \<and> (sqlite_int i \<and> session_get_usuario db i = Inr (Some old)
        \<and> (\<exists>x \<in> set (usuarios db). usuario_id x \<noteq> i \<and> upd_correo u = Supplied (Some (correo x)))
        \<longrightarrow> actualizar_usuario db i u = (db, Inl Conflict))
   \<and> (sqlite_int i \<and> session_get_usuario db i = Inr (Some old)
        \<and> upd_nombre u \<noteq> Supplied None \<and> upd_correo u \<noteq> Supplied None
        \<and> (\<forall>x \<in> set (usuarios db). usuario_id x \<noteq> i \<longrightarrow>
               setattr_field (upd_correo u) (correo old) \<noteq> Some (correo x))
        \<longrightarrow> (\<exists>row db'. actualizar_usuario db i u = (db', Inr row)
               \<and> usuario_id row = i \<and> fecha_registro row = fecha_registro old
               \<and> (upd_nombre u = Unset \<longrightarrow> nombre row = nombre old)
               \<and> (\<forall>v. upd_nombre u = Supplied (Some v) \<longrightarrow> nombre row = v)
               \<and> (upd_correo u = Unset \<longrightarrow> correo row = correo old)
               \<and> (\<forall>v. upd_correo u = Supplied (Some v) \<longrightarrow> correo row = v)
               \<and> session_get_usuario db' i = Inr (Some row)
               \<and> (\<forall>j. j \<noteq> i \<longrightarrow> session_get_usuario db' j = session_get_usuario db j)
               \<and> map usuario_id (usuarios db') = map usuario_id (usuarios db)
               \<and> canciones db' = canciones db \<and> favoritos db' = favoritos db))
   \<and> (sqlite_int k \<and> session_get_cancion db k = Inr (Some cold)
        \<and> upd_titulo cu \<noteq> Supplied None \<and> upd_artista cu \<noteq> Supplied None
        \<and> upd_album cu \<noteq> Supplied None \<and> upd_duracion cu \<noteq> Supplied None
        \<and> upd_anio cu \<noteq> Supplied None \<and> upd_genero cu \<noteq> Supplied None
        \<longrightarrow> (\<exists>row db'. actualizar_cancion db k cu = (db', Inr row)
               \<and> cancion_id row = k \<and> fecha_creacion row = fecha_creacion cold
               \<and> (upd_titulo cu = Unset \<longrightarrow> titulo row = titulo cold)
               \<and> (\<forall>v. upd_titulo cu = Supplied (Some v) \<longrightarrow> titulo row = v)
               \<and> (upd_artista cu = Unset \<longrightarrow> artista row = artista cold)
               \<and> (\<forall>v. upd_artista cu = Supplied (Some v) \<longrightarrow> artista row = v)
               \<and> (upd_album cu = Unset \<longrightarrow> album row = album cold)
               \<and> (\<forall>v. upd_album cu = Supplied (Some v) \<longrightarrow> album row = v)
               \<and> (upd_duracion cu = Unset \<longrightarrow> duracion row = duracion cold)
               \<and> (\<forall>v. upd_duracion cu = Supplied (Some v) \<longrightarrow> duracion row = v)
               \<and> (upd_anio cu = Unset \<longrightarrow> anio row = anio cold)
               \<and> (\<forall>v. upd_anio cu = Supplied (Some v) \<longrightarrow> anio row = v)
               \<and> (upd_genero cu = Unset \<longrightarrow> genero row = genero cold)
               \<and> (\<forall>v. upd_genero cu = Supplied (Some v) \<longrightarrow> genero row = v)
               \<and> session_get_cancion db' k = Inr (Some row)
               \<and> (\<forall>j. j \<noteq> k \<longrightarrow> session_get_cancion db' j = session_get_cancion db j)
               \<and> map cancion_id (canciones db') = map cancion_id (canciones db)
               \<and> usuarios db' = usuarios db \<and> favoritos db' = favoritos db))"
proof (intro conjI impI; (elim conjE)?)
  assume "sqlite_int i" "i \<notin> usuario_id ` set (usuarios db)"
  then show "actualizar_usuario db i u = (db, Inl NotFound)"
    by (rule actualizar_usuario_not_found)
next
  assume "sqlite_int k" "k \<notin> cancion_id ` set (canciones db)"
  then show "actualizar_cancion db k cu = (db, Inl NotFound)"
    by (rule actualizar_cancion_not_found)
next
  assume "sqlite_int i"
  assume "session_get_usuario db i = Inr (Some old)"
    "\<exists>x \<in> set (usuarios db). usuario_id x \<noteq> i \<and> upd_correo u = Supplied (Some (correo x))"
  then show "actualizar_usuario db i u = (db, Inl Conflict)"
    by (rule actualizar_usuario_conflict)
next
  assume "sqlite_int i"
  assume "session_get_usuario db i = Inr (Some old)"
    "upd_nombre u \<noteq> Supplied None" "upd_correo u \<noteq> Supplied None"
    "\<forall>x \<in> set (usuarios db). usuario_id x \<noteq> i \<longrightarrow>
               setattr_field (upd_correo u) (correo old) \<noteq> Some (correo x)"
  then show "\<exists>row db'. actualizar_usuario db i u = (db', Inr row)
               \<and> usuario_id row = i \<and> fecha_registro row = fecha_registro old
               \<and> (upd_nombre u = Unset \<longrightarrow> nombre row = nombre old)
               \<and> (\<forall>v. upd_nombre u = Supplied (Some v) \<longrightarrow> nombre row = v)
               \<and> (upd_correo u = Unset \<longrightarrow> correo row = correo old)
               \<and> (\<forall>v. upd_correo u = Supplied (Some v) \<longrightarrow> correo row = v)
               \<and> session_get_usuario db' i = Inr (Some row)
               \<and> (\<forall>j. j \<noteq> i \<longrightarrow> session_get_usuario db' j = session_get_usuario db j)
               \<and> map usuario_id (usuarios db') = map usuario_id (usuarios db)
               \<and> canciones db' = canciones db \<and> favoritos db' = favoritos db"
    by (rule actualizar_usuario_ok)
next
  assume "sqlite_int k"
  assume "session_get_cancion db k = Inr (Some cold)"
    "upd_titulo cu \<noteq> Supplied None" "upd_artista cu \<noteq> Supplied None"
    "upd_album cu \<noteq> Supplied None" "upd_duracion cu \<noteq> Supplied None"
    "upd_anio cu \<noteq> Supplied None" "upd_genero cu \<noteq> Supplied None"
  then show "\<exists>row db'. actualizar_cancion db k cu = (db', Inr row)
               \<and> cancion_id row = k \<and> fecha_creacion row = fecha_creacion cold
               \<and> (upd_titulo cu = Unset \<longrightarrow> titulo row = titulo cold)
               \<and> (\<forall>v. upd_titulo cu = Supplied (Some v) \<longrightarrow> titulo row = v)
               \<and> (upd_artista cu = Unset \<longrightarrow> artista row = artista cold)
               \<and> (\<forall>v. upd_artista cu = Supplied (Some v) \<longrightarrow> artista row = v)
               \<and> (upd_album cu = Unset \<longrightarrow> album row = album cold)
               \<and> (\<forall>v. upd_album cu = Supplied (Some v) \<longrightarrow> album row = v)
               \<and> (upd_duracion cu = Unset \<longrightarrow> duracion row = duracion cold)
               \<and> (\<forall>v. upd_duracion cu = Supplied (Some v) \<longrightarrow> duracion row = v)
               \<and> (upd_anio cu = Unset \<longrightarrow> anio row = anio cold)
               \<and> (\<forall>v. upd_anio cu = Supplied (Some v) \<longrightarrow> anio row = v)
               \<and> (upd_genero cu = Unset \<longrightarrow> genero row = genero cold)
               \<and> (\<forall>v. upd_genero cu = Supplied (Some v) \<longrightarrow> genero row = v)
               \<and> session_get_cancion db' k = Inr (Some row)
               \<and> (\<forall>j. j \<noteq> k \<longrightarrow> session_get_cancion db' j = session_get_cancion db j)
               \<and> map cancion_id (canciones db') = map cancion_id (canciones db)
               \<and> usuarios db' = usuarios db \<and> favoritos db' = favoritos db"
    by (rule actualizar_cancion_ok)
qed

theorem actualizar_parcial_witness:
  "sqlite_int 2 \<and> sqlite_int 1 \<and> sqlite_int 999
   \<and> session_get_usuario db_sin_favoritos 2 = Inr (Some usuario_luis)
   \<and> session_get_cancion db_sin_favoritos 1 = Inr (Some cancion_t)
   \<and> (\<exists>row db'. actualizar_usuario db_sin_favoritos 2 update_nombre_luisa = (db', Inr row)
          \<and> usuario_id row = 2 \<and> fecha_registro row = fecha_registro usuario_luis
          \<and> nombre row = ''Luisa'' \<and> correo row = correo usuario_luis
          \<and> session_get_usuario db' 2 = Inr (Some row)
          \<and> session_get_usuario db' 1 = session_get_usuario db_sin_favoritos 1)
   \<and> (\<exists>row db'. actualizar_cancion db_sin_favoritos 1 update_titulo_genero = (db', Inr row)
          \<and> cancion_id row = 1 \<and> fecha_creacion row = fecha_creacion cancion_t
          \<and> titulo row = ''Cancion Actualizada'' \<and> genero row = ''Pop''
          \<and> artista row = artista cancion_t \<and> album row = album cancion_t
          \<and> duracion row = duracion cancion_t \<and> anio row = anio cancion_t
          \<and> session_get_cancion db' 1 = Inr (Some row))
   \<and> 999 \<notin> usuario_id ` set (usuarios db_sin_favoritos)
   \<and> 999 \<notin> cancion_id ` set (canciones db_sin_favoritos)
   \<and> actualizar_usuario db_sin_favoritos 999 update_nombre_luisa
       = (db_sin_favoritos, Inl NotFound)
   \<and> actualizar_cancion db_sin_favoritos 999 update_titulo_genero
       = (db_sin_favoritos, Inl NotFound)
   \<and> actualizar_usuario db_sin_favoritos 2 update_correo_ana = (db_sin_favoritos, Inl Conflict)"
proof -
  have g: "session_get_usuario db_sin_favoritos 2 = Inr (Some usuario_luis)"
    "session_get_cancion db_sin_favoritos 1 = Inr (Some cancion_t)"
    "999 \<notin> usuario_id ` set (usuarios db_sin_favoritos)"
    "999 \<notin> cancion_id ` set (canciones db_sin_favoritos)"
    by (simp_all add: session_get_usuario_def session_get_cancion_def ejemplos_defs)
  have rg: "sqlite_int 2" "sqlite_int 1" "sqlite_int 999"
    by (simp_all add: sqlite_int_def)
  have u: "upd_nombre update_nombre_luisa = Supplied (Some ''Luisa'')"
    "upd_correo update_nombre_luisa = Unset"
    by (simp_all add: update_nombre_luisa_def)
  have free: "\<forall>x \<in> set (usuarios db_sin_favoritos). usuario_id x \<noteq> 2 \<longrightarrow>
      setattr_field (upd_correo update_nombre_luisa) (correo usuario_luis) \<noteq> Some (correo x)"
    by (simp add: u setattr_field_def ejemplos_defs)
  have col: "\<exists>x \<in> set (usuarios db_sin_favoritos). usuario_id x \<noteq> 2
      \<and> upd_correo update_correo_ana = Supplied (Some (correo x))"
    by (simp add: update_correo_ana_def ejemplos_defs)
  have c: "upd_titulo update_titulo_genero = Supplied (Some ''Cancion Actualizada'')"
    "upd_artista update_titulo_genero = Unset" "upd_album update_titulo_genero = Unset"
    "upd_duracion update_titulo_genero = Unset" "upd_anio update_titulo_genero = Unset"
    "upd_genero update_titulo_genero = Supplied (Some ''Pop'')"
    by (simp_all add: update_titulo_genero_def)
  have nn: "upd_nombre update_nombre_luisa \<noteq> Supplied None"
    "upd_correo update_nombre_luisa \<noteq> Supplied None"
    "upd_titulo update_titulo_genero \<noteq> Supplied None"
    "upd_artista update_titulo_genero \<noteq> Supplied None"
    "upd_album update_titulo_genero \<noteq> Supplied None"
    "upd_duracion update_titulo_genero \<noteq> Supplied None"
    "upd_anio update_titulo_genero \<noteq> Supplied None"
    "upd_genero update_titulo_genero \<noteq> Supplied None"
    by (simp_all add: u c)
  have ne: "(1::int) \<noteq> 2" by simp
  note ok = actualizar_parcial
    [where db = db_sin_favoritos and i = 2 and k = 1 and u = update_nombre_luisa
       and cu = update_titulo_genero and old = usuario_luis and cold = cancion_t]
  note nf = actualizar_parcial
    [where db = db_sin_favoritos and i = 999 and k = 999 and u = update_nombre_luisa
       and cu = update_titulo_genero and old = usuario_luis and cold = cancion_t]
  note cf = actualizar_parcial
    [where db = db_sin_favoritos and i = 2 and k = 1 and u = update_correo_ana
       and cu = update_titulo_genero and old = usuario_luis and cold = cancion_t]
  have h4: "sqlite_int 2 \<and> session_get_usuario db_sin_favoritos 2 = Inr (Some usuario_luis)
        \<and> upd_nombre update_nombre_luisa \<noteq> Supplied None
        \<and> upd_correo update_nombre_luisa \<noteq> Supplied None
        \<and> (\<forall>x \<in> set (usuarios db_sin_favoritos). usuario_id x \<noteq> 2 \<longrightarrow>
               setattr_field (upd_correo update_nombre_luisa) (correo usuario_luis)
                 \<noteq> Some (correo x))"
    using rg(1) g(1) nn(1,2) free by (intro conjI)
  from ok [THEN conjunct2, THEN conjunct2, THEN conjunct2, THEN conjunct1, THEN mp, OF h4]
  obtain row db' where r:
    "actualizar_usuario db_sin_favoritos 2 update_nombre_luisa = (db', Inr row)"
    "usuario_id row = 2" "fecha_registro row = fecha_registro usuario_luis"
    "\<forall>v. upd_nombre update_nombre_luisa = Supplied (Some v) \<longrightarrow> nombre row = v"
    "upd_correo update_nombre_luisa = Unset \<longrightarrow> correo row = correo usuario_luis"
    "session_get_usuario db' 2 = Inr (Some row)"
    "\<forall>j. j \<noteq> 2 \<longrightarrow> session_get_usuario db' j = session_get_usuario db_sin_favoritos j"
    by (elim exE conjE) (rule that)
  have a: "\<exists>row db'. actualizar_usuario db_sin_favoritos 2 update_nombre_luisa = (db', Inr row)
          \<and> usuario_id row = 2 \<and> fecha_registro row = fecha_registro usuario_luis
          \<and> nombre row = ''Luisa'' \<and> correo row = correo usuario_luis
          \<and> session_get_usuario db' 2 = Inr (Some row)
          \<and> session_get_usuario db' 1 = session_get_usuario db_sin_favoritos 1"
    using r u ne by (intro exI [of _ row] exI [of _ db']) simp
  have h5: "sqlite_int 1 \<and> session_get_cancion db_sin_favoritos 1 = Inr (Some cancion_t)
        \<and> upd_titulo update_titulo_genero \<noteq> Supplied None
        \<and> upd_artista update_titulo_genero \<noteq> Supplied None
        \<and> upd_album update_titulo_genero \<noteq> Supplied None
        \<and> upd_duracion update_titulo_genero \<noteq> Supplied None
        \<and> upd_anio update_titulo_genero \<noteq> Supplied None
        \<and> upd_genero update_titulo_genero \<noteq> Supplied None"
    using rg(2) g(2) nn(3-8) by (intro conjI)
  from ok [THEN conjunct2, THEN conjunct2, THEN conjunct2, THEN conjunct2, THEN mp, OF h5]
  obtain crow cdb' where cr:
    "actualizar_cancion db_sin_favoritos 1 update_titulo_genero = (cdb', Inr crow)"
    "cancion_id crow = 1" "fecha_creacion crow = fecha_creacion cancion_t"
    "\<forall>v. upd_titulo update_titulo_genero = Supplied (Some v) \<longrightarrow> titulo crow = v"
    "upd_artista update_titulo_genero = Unset \<longrightarrow> artista crow = artista cancion_t"
    "upd_album update_titulo_genero = Unset \<longrightarrow> album crow = album cancion_t"
    "upd_duracion update_titulo_genero = Unset \<longrightarrow> duracion crow = duracion cancion_t"
    "upd_anio update_titulo_genero = Unset \<longrightarrow> anio crow = anio cancion_t"
    "\<forall>v. upd_genero update_titulo_genero = Supplied (Some v) \<longrightarrow> genero crow = v"
    "session_get_cancion cdb' 1 = Inr (Some crow)"
    by (elim exE conjE) (rule that)
  have b: "\<exists>row db'. actualizar_cancion db_sin_favoritos 1 update_titulo_genero = (db', Inr row)
          \<and> cancion_id row = 1 \<and> fecha_creacion row = fecha_creacion cancion_t
          \<and> titulo row = ''Cancion Actualizada'' \<and> genero row = ''Pop''
          \<and> artista row = artista cancion_t \<and> album row = album cancion_t
          \<and> duracion row = duracion cancion_t \<and> anio row = anio cancion_t
          \<and> session_get_cancion db' 1 = Inr (Some row)"
    using cr c by (intro exI [of _ crow] exI [of _ cdb']) simp
  have d: "actualizar_usuario db_sin_favoritos 999 update_nombre_luisa
       = (db_sin_favoritos, Inl NotFound)"
    "actualizar_cancion db_sin_favoritos 999 update_titulo_genero
       = (db_sin_favoritos, Inl NotFound)"
    using nf [THEN conjunct1, THEN mp, OF conjI [OF rg(3) g(3)]]
      nf [THEN conjunct2, THEN conjunct1, THEN mp, OF conjI [OF rg(3) g(4)]] by simp_all
  have h3: "sqlite_int 2 \<and> session_get_usuario db_sin_favoritos 2 = Inr (Some usuario_luis)
        \<and> (\<exists>x \<in> set (usuarios db_sin_favoritos). usuario_id x \<noteq> 2
              \<and> upd_correo update_correo_ana = Supplied (Some (correo x)))"
    using rg(1) g(1) col by (intro conjI)
  have e: "actualizar_usuario db_sin_favoritos 2 update_correo_ana = (db_sin_favoritos, Inl Conflict)"
    using cf [THEN conjunct2, THEN conjunct2, THEN conjunct1, THEN mp, OF h3] .
  show ?thesis using rg g a b d e by (intro conjI)
qed


section \<open>Uniqueness: what the store enforces and what the handlers keep\<close>

text \<open>
  C3, as claimed: the store itself refuses a second favorite with the same pair. It does
  not: committed straight to the session, past the handlers' check, the pair that Ana
  has already marked is inserted again, and the store then holds two favorites with the
  same pair.
\<close>

theorem favorito_repetido_counterexample:
  "commit_add_favorito db_con_favorito 4 \<lparr>id_usuario = 1, id_cancion = 1\<rparr>
     = Inr (db_duplicado, favorito_repetido)
   \<and> par_favorito favorito_ana_t = par_favorito favorito_repetido
   \<and> \<not> distinct (map par_favorito (favoritos db_duplicado))"
  by (simp add: commit_add_favorito_def Favorito_model_validate_def next_id_def par_favorito_def
      Let_def ejemplos_defs favorito_repetido_def db_duplicado_def)

lemma distinct_map_update:
  assumes "distinct (map k xs)" "distinct (map c xs)"
    and "k row = i" "\<forall>x \<in> set xs. k x \<noteq> i \<longrightarrow> c x \<noteq> c row"
  shows "distinct (map c (map (\<lambda>x. if k x = i then row else x) xs))"
  using assms(1,2,4)
proof (induction xs)
  case Nil
  then show ?case by simp
next
  case (Cons x xs)
  let ?f = "\<lambda>x. if k x = i then row else x"
  have ih: "distinct (map c (map ?f xs))" using Cons by simp
  show ?case
  proof (cases "k x = i")
    case True
    have "k x \<notin> k ` set xs" using Cons.prems(1) by simp
    then have "\<forall>y \<in> set xs. k y \<noteq> i" using True by (auto simp: image_iff)
    then have same: "map ?f xs = xs" by (induction xs) auto
    have "c row \<notin> set (map c xs)"
      using \<open>\<forall>y \<in> set xs. k y \<noteq> i\<close> Cons.prems(3) by auto
    then show ?thesis using True same Cons.prems(2) by simp
  next
    case False
    have "c x \<noteq> c row" using False Cons.prems(3) by simp
    moreover have "c x \<notin> set (map c xs)" using Cons.prems(2) by simp
    ultimately have "c x \<notin> set (map c (map ?f xs))"
      by (auto simp: image_iff split: if_splits)
    then show ?thesis using False ih by simp
  qed
qed

lemma sin_duplicados_crear_usuario:
  "sin_duplicados db \<Longrightarrow> sin_duplicados (fst (crear_usuario db now u))"
proof -
  assume i: "sin_duplicados db"
  show ?thesis
  proof (cases "\<exists>x \<in> set (usuarios db). correo x = correo u")
    case True
    then show ?thesis using i by (simp add: crear_usuario_def commit_add_usuario_def)
  next
    case False
    have "next_id (map usuario_id (usuarios db)) \<notin> set (map usuario_id (usuarios db))"
      by (rule next_id_fresh)
    then show ?thesis using i False
      by (auto simp: crear_usuario_def commit_add_usuario_def Let_def sin_duplicados_def
          Usuario_model_validate_def)
  qed
qed

lemma sin_duplicados_actualizar_usuario:
  assumes i: "sin_duplicados db"
  shows "sin_duplicados (fst (actualizar_usuario db k u))"
proof (cases "\<exists>old. session_get_usuario db k = Inr (Some old)")
  case False
  then have "fst (actualizar_usuario db k u) = db"
    by (simp add: actualizar_usuario_def split: sum.splits option.splits)
  then show ?thesis using i by simp
next
  case True
  then obtain old where Some: "session_get_usuario db k = Inr (Some old)" by (elim exE)
  show ?thesis
  proof (cases "commit_update_usuario db old (setattr_field (upd_nombre u) (nombre old))
                  (setattr_field (upd_correo u) (correo old))")
    case (Inl e)
    then show ?thesis using i Some by (cases e) (simp_all add: actualizar_usuario_def)
  next
    case (Inr p)
    obtain db' row where p: "p = (db', row)" by (cases p)
    from Inr p obtain n c where
      nc: "setattr_field (upd_nombre u) (nombre old) = Some n"
          "setattr_field (upd_correo u) (correo old) = Some c"
      by (auto simp: commit_update_usuario_def split: option.splits)
    from Inr p nc have
      nocol: "\<not> (\<exists>x \<in> set (usuarios db). usuario_id x \<noteq> usuario_id old \<and> correo x = c)"
      and row: "row = old\<lparr>nombre := n, correo := c\<rparr>"
      and db': "db' = db\<lparr>usuarios := map (\<lambda>x. if usuario_id x = usuario_id old then row else x) (usuarios db)\<rparr>"
      by (auto simp: commit_update_usuario_def Let_def split: if_splits)
    have r: "fst (actualizar_usuario db k u) = db'"
      using Some Inr p by (simp add: actualizar_usuario_def)
    have kid: "usuario_id row = usuario_id old" by (simp add: row)
    define f where "f = (\<lambda>x. if usuario_id x = usuario_id old then row else x)"
    have tabs: "usuarios db' = map f (usuarios db)" "favoritos db' = favoritos db"
      by (simp_all add: db' f_def)
    have a: "distinct (map correo (map f (usuarios db)))"
      unfolding f_def
    proof (rule distinct_map_update [where k = usuario_id and i = "usuario_id old"])
      show "distinct (map usuario_id (usuarios db))" using i by (simp add: sin_duplicados_def)
      show "distinct (map correo (usuarios db))" using i by (simp add: sin_duplicados_def)
      show "usuario_id row = usuario_id old" by (rule kid)
      show "\<forall>x \<in> set (usuarios db). usuario_id x \<noteq> usuario_id old \<longrightarrow> correo x \<noteq> correo row"
        using nocol by (auto simp: row)
    qed
    have "usuario_id (f x) = usuario_id x" for x by (simp add: f_def kid)
    then have b: "map usuario_id (map f (usuarios db)) = map usuario_id (usuarios db)"
      by simp
    have "distinct (map usuario_id (usuarios db'))" "distinct (map correo (usuarios db'))"
      "distinct (map par_favorito (favoritos db'))"
      using i a b by (simp_all only: tabs sin_duplicados_def)
    then show ?thesis by (simp add: r sin_duplicados_def)
  qed
qed

lemma sin_duplicados_eliminar_usuario:
  "sin_duplicados db \<Longrightarrow> sin_duplicados (fst (eliminar_usuario db k))"
  by (auto simp: eliminar_usuario_def commit_delete_usuario_def sin_duplicados_def
      distinct_map_filter split: sum.splits option.splits)

lemma sin_duplicados_cancion:
  "sin_duplicados db \<Longrightarrow> sin_duplicados (fst (crear_cancion db now c))"
  "sin_duplicados db \<Longrightarrow> sin_duplicados (fst (actualizar_cancion db k cu))"
  "sin_duplicados db \<Longrightarrow> sin_duplicados (fst (eliminar_cancion db k))"
  by (auto simp: crear_cancion_def commit_add_cancion_def actualizar_cancion_def
      commit_update_cancion_def eliminar_cancion_def commit_delete_cancion_def Let_def
      sin_duplicados_def split: sum.splits option.splits)

lemma crear_favorito_estado:
  "fst (crear_favorito db now f) = db
   \<or> (select_favorito_par db (id_usuario f) (id_cancion f) = Inr None
      \<and> fst (crear_favorito db now f)
          = db\<lparr>favoritos := favoritos db
                  @ [Favorito_model_validate now (next_id (map favorito_id (favoritos db))) f]\<rparr>)"
  by (simp add: crear_favorito_def commit_add_favorito_def Let_def
      split: sum.splits option.splits)

lemma sin_duplicados_crear_favorito:
  assumes i: "sin_duplicados db"
  shows "sin_duplicados (fst (crear_favorito db now f))"
proof -
  from crear_favorito_estado [of db now f] show ?thesis
  proof
    assume "fst (crear_favorito db now f) = db"
    then show ?thesis using i by simp
  next
    assume h: "select_favorito_par db (id_usuario f) (id_cancion f) = Inr None
      \<and> fst (crear_favorito db now f)
          = db\<lparr>favoritos := favoritos db
                  @ [Favorito_model_validate now (next_id (map favorito_id (favoritos db))) f]\<rparr>"
    then have "\<not> (\<exists>x \<in> set (favoritos db).
        id_usuario x = id_usuario f \<and> id_cancion x = id_cancion f)"
      by (simp add: select_favorito_par_None)
    then have "(id_usuario f, id_cancion f) \<notin> par_favorito ` set (favoritos db)"
      by (auto simp: par_favorito_def)
    then show ?thesis using i h
      by (simp add: sin_duplicados_def par_favorito_def Favorito_model_validate_def)
  qed
qed

lemma sin_duplicados_marcar:
  "sin_duplicados db \<Longrightarrow> sin_duplicados (fst (marcar_favorito_especifico db now a b))"
  using sin_duplicados_crear_favorito [of db now "\<lparr>id_usuario = a, id_cancion = b\<rparr>"]
  by (simp add: crear_favorito_eq_marcar)

lemma sin_duplicados_eliminar_favorito:
  "sin_duplicados db \<Longrightarrow> sin_duplicados (fst (eliminar_favorito db k))"
  "sin_duplicados db \<Longrightarrow> sin_duplicados (fst (eliminar_favorito_especifico db a b))"
  by (auto simp: eliminar_favorito_def eliminar_favorito_especifico_def sin_duplicados_def
      distinct_map_filter split: sum.splits option.splits)

lemma sin_duplicados_serve: "sin_duplicados db \<Longrightarrow> sin_duplicados (serve db req)"
  by (cases req)
    (simp_all add: sin_duplicados_crear_usuario sin_duplicados_actualizar_usuario
      sin_duplicados_eliminar_usuario sin_duplicados_cancion sin_duplicados_crear_favorito
      sin_duplicados_marcar sin_duplicados_eliminar_favorito)

lemma reachable_sin_duplicados: "reachable db \<Longrightarrow> sin_duplicados db"
proof (induction rule: reachable.induct)
  case reachable_init
  show ?case by (simp add: sin_duplicados_def empty_db_def)
next
  case (reachable_step db req)
  then show ?case by (simp add: sin_duplicados_serve)
qed


text \<open>
  C3, amended. The store enforces the uniqueness of \<open>correo\<close>: an insert or an update
  that would give a row the email of another row raises \<^verbatim>\<open>IntegrityError\<close>, whatever
  the application checked. It enforces nothing on the pair of a favorite; that is kept by
  the check the two creation handlers make before inserting. In every state reached from
  the empty store through the handlers, one request after another, no two users have the
  same \<open>correo\<close> and no two favorites the same pair.
\<close>

theorem unicidad_almacen_y_handlers:
  "((\<exists>x \<in> set (usuarios db0). correo x = correo data)
      \<longrightarrow> commit_add_usuario db0 now data = Inl IntegrityError)
   \<and> ((\<exists>x \<in> set (usuarios db0). usuario_id x \<noteq> usuario_id usuario \<and> correo x = c)
      \<longrightarrow> commit_update_usuario db0 usuario (Some n) (Some c) = Inl IntegrityError)
   \<and> (reachable db
      \<longrightarrow> distinct (map correo (usuarios db)) \<and> distinct (map par_favorito (favoritos db)))"
proof (intro conjI impI)
  assume "\<exists>x \<in> set (usuarios db0). correo x = correo data"
  then show "commit_add_usuario db0 now data = Inl IntegrityError"
    by (simp add: commit_add_usuario_def)
next
  assume "\<exists>x \<in> set (usuarios db0). usuario_id x \<noteq> usuario_id usuario \<and> correo x = c"
  then show "commit_update_usuario db0 usuario (Some n) (Some c) = Inl IntegrityError"
    by (simp add: commit_update_usuario_def)
next
  assume "reachable db"
  then have "sin_duplicados db" by (rule reachable_sin_duplicados)
  then show "distinct (map correo (usuarios db))" "distinct (map par_favorito (favoritos db))"
    by (simp_all add: sin_duplicados_def)
qed

theorem unicidad_almacen_y_handlers_witness:
  "reachable db_alcanzado
   \<and> distinct (map correo (usuarios db_alcanzado))
   \<and> distinct (map par_favorito (favoritos db_alcanzado))
   \<and> (\<exists>x \<in> set (usuarios db_sin_favoritos). correo x = correo \<lparr>nombre = ''Otra'', correo = ''ana@x.com''\<rparr>)
   \<and> commit_add_usuario db_sin_favoritos 5 \<lparr>nombre = ''Otra'', correo = ''ana@x.com''\<rparr>
       = Inl IntegrityError
   \<and> (\<exists>x \<in> set (usuarios db_sin_favoritos). usuario_id x \<noteq> usuario_id usuario_luis
          \<and> correo x = ''ana@x.com'')
   \<and> commit_update_usuario db_sin_favoritos usuario_luis (Some ''Luis'') (Some ''ana@x.com'')
       = Inl IntegrityError"
proof -
  have r: "reachable db_alcanzado"
    unfolding db_alcanzado_def by (intro reachable_step reachable_init)
  have h1: "\<exists>x \<in> set (usuarios db_sin_favoritos).
      correo x = correo \<lparr>nombre = ''Otra'', correo = ''ana@x.com''\<rparr>"
    by (simp add: ejemplos_defs)
  have h2: "\<exists>x \<in> set (usuarios db_sin_favoritos). usuario_id x \<noteq> usuario_id usuario_luis
          \<and> correo x = ''ana@x.com''"
    by (simp add: ejemplos_defs)
  note t = unicidad_almacen_y_handlers
    [where db = db_alcanzado and ?db0.0 = db_sin_favoritos and now = 5
       and data = "\<lparr>nombre = ''Otra'', correo = ''ana@x.com''\<rparr>"
       and usuario = usuario_luis and n = "''Luis''" and c = "''ana@x.com''"]
  show ?thesis
    using r h1 h2 t [THEN conjunct1, THEN mp, OF h1]
      t [THEN conjunct2, THEN conjunct1, THEN mp, OF h2]
      t [THEN conjunct2, THEN conjunct2, THEN mp, OF r]
    by (intro conjI) simp_all
qed

end
